theory Spec2Isabelle
  imports Complex_Main "HOL-Library.Word"
begin

section \<open>The inventory administration page\<close>

text \<open>
  A shallow embedding of \<^verbatim>\<open>frontend/app/dashboard/admin/inventory/page.tsx\<close>: the
  component's state, its event handlers \<^verbatim>\<open>getImageUrl\<close>, \<^verbatim>\<open>fetchInventory\<close>,
  \<^verbatim>\<open>handleImageChange\<close>, \<^verbatim>\<open>handleSubmit\<close>, \<^verbatim>\<open>handleEdit\<close>,
  \<^verbatim>\<open>handleDelete\<close>, \<^verbatim>\<open>resetForm\<close>, and the parts of the JavaScript runtime they
  rely on (strings, \<^verbatim>\<open>trim\<close>, \<^verbatim>\<open>split\<close>, \<^verbatim>\<open>Number\<close>).
\<close>

subsection \<open>JavaScript strings\<close>

text \<open>
  A JavaScript string is a sequence of 16-bit code units. An ASCII literal of the source
  is written \<open>str ''...''\<close>.
\<close>

type_synonym jsstring = "16 word list"

definition str :: "string \<Rightarrow> jsstring" where
  "str s = map (\<lambda>c. of_nat (of_char c)) s"

text \<open>
  \<^verbatim>\<open>String.prototype.trim\<close> removes the code units of the productions WhiteSpace (TAB,
  VT, FF, SP, NBSP, ZWNBSP and the category Zs) and LineTerminator (LF, CR, LS, PS) from
  both ends. The same set is StrWhiteSpaceChar of the grammar that \<^verbatim>\<open>Number\<close> reads.
\<close>

definition isWhiteSpace :: "16 word \<Rightarrow> bool" where
  "isWhiteSpace c \<longleftrightarrow>
     c = 0x9 \<or> c = 0xB \<or> c = 0xC \<or> c = 0x20 \<or> c = 0xA0 \<or> c = 0xFEFF \<or>
     c = 0x1680 \<or> (0x2000 \<le> c \<and> c \<le> 0x200A) \<or> c = 0x202F \<or> c = 0x205F \<or> c = 0x3000 \<or>
     c = 0xA \<or> c = 0xD \<or> c = 0x2028 \<or> c = 0x2029"

definition trim :: "jsstring \<Rightarrow> jsstring" where
  "trim s = rev (dropWhile isWhiteSpace (rev (dropWhile isWhiteSpace s)))"

text \<open>Truthiness of a string: every string but the empty one.\<close>

definition truthy :: "jsstring \<Rightarrow> bool" where
  "truthy s \<longleftrightarrow> s \<noteq> []"

text \<open>
  A value of type \<^verbatim>\<open>string | undefined | null\<close>, and of an optional property
  \<^verbatim>\<open>p?: string\<close>.
\<close>

datatype maybe_string = Undefined | Null | Str jsstring

fun truthy_maybe :: "maybe_string \<Rightarrow> bool" where
  "truthy_maybe Undefined = False"
| "truthy_maybe Null = False"
| "truthy_maybe (Str s) = truthy s"

text \<open>
  \<^verbatim>\<open>s.replace(/\\/g, '/')\<close>: every backslash (0x5C) becomes a slash (0x2F).
\<close>

definition replaceBackslashes :: "jsstring \<Rightarrow> jsstring" where
  "replaceBackslashes s = map (\<lambda>c. if c = 0x5C then 0x2F else c) s"

text \<open>
  \<^verbatim>\<open>s.split(sep)\<close> for a separator of one code unit: the pieces between the
  separators, in order; the result is never the empty array (the empty string gives one
  empty piece). \<open>split_acc\<close> carries the piece being read.
\<close>

fun split_acc :: "16 word \<Rightarrow> jsstring \<Rightarrow> jsstring \<Rightarrow> jsstring list" where
  "split_acc sep cur [] = [cur]"
| "split_acc sep cur (c # cs) =
     (if c = sep then cur # split_acc sep [] cs else split_acc sep (cur @ [c]) cs)"

definition split :: "16 word \<Rightarrow> jsstring \<Rightarrow> jsstring list" where
  "split sep s = split_acc sep [] s"

text \<open>\<^verbatim>\<open>Array.prototype.pop\<close>: the last element, \<^verbatim>\<open>undefined\<close> on the empty array.\<close>

definition pop :: "jsstring list \<Rightarrow> maybe_string" where
  "pop xs = (case rev xs of [] \<Rightarrow> Undefined | x # _ \<Rightarrow> Str x)"

text \<open>The string a template literal \<^verbatim>\<open>${v}\<close> inserts for a value.\<close>

fun toTemplate :: "maybe_string \<Rightarrow> jsstring" where
  "toTemplate Undefined = str ''undefined''"
| "toTemplate Null = str ''null''"
| "toTemplate (Str s) = s"

subsection \<open>getImageUrl\<close>

definition getImageUrl :: "maybe_string \<Rightarrow> jsstring" where
  "getImageUrl imagePath =
     (if \<not> truthy_maybe imagePath then str ''/placeholder.png''
      else
        let filename =
          (case imagePath of
             Str p \<Rightarrow> pop (split 0x2F (replaceBackslashes p))
           | _ \<Rightarrow> Undefined)
        in str ''http://localhost:8000/uploads/products/'' @ toTemplate filename)"

text \<open>
  What the specification calls the trailing filename component: the code units after the
  last slash (the whole string when it has no slash).
\<close>

definition afterLastSlash :: "jsstring \<Rightarrow> jsstring" where
  "afterLastSlash s = rev (takeWhile (\<lambda>c. c \<noteq> 0x2F) (rev s))"

subsection \<open>Numbers\<close>

text \<open>
  The handlers use numbers in two ways only: \<^verbatim>\<open>Number(s)\<close> turns a form string into
  a number that is at once compared with 0, and \<^verbatim>\<open>n.toString()\<close> turns an item's
  number into a form string. A number is NaN, an infinity or a finite value; the finite
  case carries the mathematical value, and the two zeros are not told apart (no comparison
  does). Rounding of the mantissa is left out: rounding to nearest is monotone, so it
  changes no comparison with 0 except where the value underflows to 0, and that (with the
  overflow to an infinity) is what \<open>roundToDouble\<close> keeps.
\<close>

datatype jsnumber = NaN | PosInfinity | NegInfinity | Finite rat

definition roundToDouble :: "rat \<Rightarrow> jsnumber" where
  "roundToDouble q =
     (if \<bar>q\<bar> * 2 ^ 1075 \<le> 1 then Finite 0
      else if 2 ^ 1024 - 2 ^ 970 \<le> \<bar>q\<bar> then (if 0 < q then PosInfinity else NegInfinity)
      else Finite q)"

fun negate :: "jsnumber \<Rightarrow> jsnumber" where
  "negate NaN = NaN"
| "negate PosInfinity = NegInfinity"
| "negate NegInfinity = PosInfinity"
| "negate (Finite q) = Finite (- q)"

text \<open>The comparisons \<^verbatim>\<open>a < b\<close> and \<^verbatim>\<open>a <= b\<close>: false as soon as one side is NaN.\<close>

fun js_lt :: "jsnumber \<Rightarrow> jsnumber \<Rightarrow> bool" where
  "js_lt NaN _ = False"
| "js_lt _ NaN = False"
| "js_lt PosInfinity _ = False"
| "js_lt _ NegInfinity = False"
| "js_lt NegInfinity _ = True"
| "js_lt _ PosInfinity = True"
| "js_lt (Finite a) (Finite b) = (a < b)"

fun js_le :: "jsnumber \<Rightarrow> jsnumber \<Rightarrow> bool" where
  "js_le NaN _ = False"
| "js_le _ NaN = False"
| "js_le NegInfinity _ = True"
| "js_le _ PosInfinity = True"
| "js_le PosInfinity _ = False"
| "js_le _ NegInfinity = False"
| "js_le (Finite a) (Finite b) = (a \<le> b)"

definition js_gt :: "jsnumber \<Rightarrow> jsnumber \<Rightarrow> bool" where
  "js_gt a b = js_lt b a"

definition js_ge :: "jsnumber \<Rightarrow> jsnumber \<Rightarrow> bool" where
  "js_ge a b = js_le b a"

text \<open>
  \<^verbatim>\<open>Number(s)\<close> on a string reads the grammar StringNumericLiteral: optional white
  space around either nothing (the value 0), a signed decimal literal (digits with an
  optional fraction and exponent, or \<^verbatim>\<open>Infinity\<close>) or an unsigned binary, octal or
  hexadecimal integer literal. Any other string is NaN.
\<close>

definition isDecimalDigit :: "16 word \<Rightarrow> bool" where
  "isDecimalDigit c \<longleftrightarrow> 0x30 \<le> c \<and> c \<le> 0x39"

definition digitValue :: "16 word \<Rightarrow> nat option" where
  "digitValue c =
     (if 0x30 \<le> c \<and> c \<le> 0x39 then Some (unat c - 0x30)
      else if 0x61 \<le> c \<and> c \<le> 0x66 then Some (unat c - 0x61 + 10)
      else if 0x41 \<le> c \<and> c \<le> 0x46 then Some (unat c - 0x41 + 10)
      else None)"

definition isDigitOf :: "nat \<Rightarrow> 16 word \<Rightarrow> bool" where
  "isDigitOf base c = (case digitValue c of None \<Rightarrow> False | Some d \<Rightarrow> d < base)"

definition digitsValue :: "nat \<Rightarrow> jsstring \<Rightarrow> nat" where
  "digitsValue base ds = foldl (\<lambda>a c. a * base + (case digitValue c of None \<Rightarrow> 0 | Some d \<Rightarrow> d)) 0 ds"

definition scale10 :: "nat \<Rightarrow> int \<Rightarrow> rat" where
  "scale10 m e = (if 0 \<le> e then of_nat m * 10 ^ nat e else of_nat m / 10 ^ nat (- e))"

text \<open>
  ExponentPart, read from what follows the mantissa: nothing (exponent 0), or \<^verbatim>\<open>e\<close> or
  \<^verbatim>\<open>E\<close>, an optional sign and at least one digit, up to the end of the literal.
\<close>

definition signedInteger :: "jsstring \<Rightarrow> int option" where
  "signedInteger s =
     (let (neg, ds) =
        (case s of
           [] \<Rightarrow> (False, [])
         | c # r \<Rightarrow> if c = 0x2B then (False, r) else if c = 0x2D then (True, r) else (False, s))
      in if ds \<noteq> [] \<and> list_all isDecimalDigit ds
         then Some (if neg then - int (digitsValue 10 ds) else int (digitsValue 10 ds))
         else None)"

definition exponentPart :: "jsstring \<Rightarrow> int option" where
  "exponentPart s =
     (case s of
        [] \<Rightarrow> Some 0
      | c # r \<Rightarrow> if c = 0x65 \<or> c = 0x45 then signedInteger r else None)"

definition strUnsignedDecimalLiteral :: "jsstring \<Rightarrow> jsnumber" where
  "strUnsignedDecimalLiteral s =
     (if s = str ''Infinity'' then PosInfinity
      else
        let ip = takeWhile isDecimalDigit s;
            r1 = dropWhile isDecimalDigit s;
            (fp, r2) =
              (case r1 of
                 [] \<Rightarrow> ([], r1)
               | c # r \<Rightarrow>
                   if c = 0x2E then (takeWhile isDecimalDigit r, dropWhile isDecimalDigit r)
                   else ([], r1))
        in if ip = [] \<and> fp = [] then NaN
           else
             (case exponentPart r2 of
                None \<Rightarrow> NaN
              | Some e \<Rightarrow> roundToDouble (scale10 (digitsValue 10 (ip @ fp)) (e - int (length fp)))))"

definition strDecimalLiteral :: "jsstring \<Rightarrow> jsnumber" where
  "strDecimalLiteral s =
     (case s of
        [] \<Rightarrow> NaN
      | c # r \<Rightarrow>
          if c = 0x2B then strUnsignedDecimalLiteral r
          else if c = 0x2D then negate (strUnsignedDecimalLiteral r)
          else strUnsignedDecimalLiteral s)"

text \<open>
  NonDecimalIntegerLiteral: \<^verbatim>\<open>0b\<close>, \<^verbatim>\<open>0o\<close> or \<^verbatim>\<open>0x\<close> (either case) and at least one
  digit of that base; \<open>None\<close> when the string is not of that form.
\<close>

definition nonDecimalIntegerLiteral :: "jsstring \<Rightarrow> jsnumber option" where
  "nonDecimalIntegerLiteral s =
     (case s of
        z # p # ds \<Rightarrow>
          (let base =
             (if z \<noteq> 0x30 then None
              else if p = 0x62 \<or> p = 0x42 then Some (2::nat)
              else if p = 0x6F \<or> p = 0x4F then Some 8
              else if p = 0x78 \<or> p = 0x58 then Some 16
              else None)
           in case base of
                None \<Rightarrow> None
              | Some b \<Rightarrow>
                  if ds \<noteq> [] \<and> list_all (isDigitOf b) ds
                  then Some (roundToDouble (of_nat (digitsValue b ds)))
                  else None)
      | _ \<Rightarrow> None)"

definition Number :: "jsstring \<Rightarrow> jsnumber" where
  "Number s =
     (let t = trim s
      in if t = [] then Finite 0
         else
           (case nonDecimalIntegerLiteral t of
              Some n \<Rightarrow> n
            | None \<Rightarrow> strDecimalLiteral t))"

subsection \<open>JSON.stringify on an array of strings\<close>

text \<open>
  QuoteJSONString: the string between double quotes, with the two-character escapes for
  backspace, tab, line feed, form feed, carriage return, the double quote and the
  backslash, and a \<^verbatim>\<open>\uXXXX\<close> escape (lower-case hexadecimal) for the other code units
  below 0x20 and for a surrogate that is not half of a pair.
\<close>

definition hexChar :: "nat \<Rightarrow> 16 word" where
  "hexChar d = (if d < 10 then of_nat (0x30 + d) else of_nat (0x61 + (d - 10)))"

definition unicodeEscape :: "16 word \<Rightarrow> jsstring" where
  "unicodeEscape c =
     [0x5C, 0x75, hexChar (unat c div 4096 mod 16), hexChar (unat c div 256 mod 16),
      hexChar (unat c div 16 mod 16), hexChar (unat c mod 16)]"

definition isLeadingSurrogate :: "16 word \<Rightarrow> bool" where
  "isLeadingSurrogate c \<longleftrightarrow> 0xD800 \<le> c \<and> c \<le> 0xDBFF"

definition isTrailingSurrogate :: "16 word \<Rightarrow> bool" where
  "isTrailingSurrogate c \<longleftrightarrow> 0xDC00 \<le> c \<and> c \<le> 0xDFFF"

fun quoteUnits :: "jsstring \<Rightarrow> jsstring" where
  "quoteUnits [] = []"
| "quoteUnits [c] =
     (if c = 0x8 then [0x5C, 0x62]
      else if c = 0x9 then [0x5C, 0x74]
      else if c = 0xA then [0x5C, 0x6E]
      else if c = 0xC then [0x5C, 0x66]
      else if c = 0xD then [0x5C, 0x72]
      else if c = 0x22 then [0x5C, 0x22]
      else if c = 0x5C then [0x5C, 0x5C]
      else if c < 0x20 \<or> isLeadingSurrogate c \<or> isTrailingSurrogate c then unicodeEscape c
      else [c])"
| "quoteUnits (c # d # cs) =
     (if isLeadingSurrogate c \<and> isTrailingSurrogate d then c # d # quoteUnits cs
      else quoteUnits [c] @ quoteUnits (d # cs))"

definition quoteJSONString :: "jsstring \<Rightarrow> jsstring" where
  "quoteJSONString v = [0x22] @ quoteUnits v @ [0x22]"

fun joinComma :: "jsstring list \<Rightarrow> jsstring" where
  "joinComma [] = []"
| "joinComma [x] = x"
| "joinComma (x # y # ys) = x @ [0x2C] @ joinComma (y # ys)"

definition stringify :: "jsstring list \<Rightarrow> jsstring" where
  "stringify xs = [0x5B] @ joinComma (map quoteJSONString xs) @ [0x5D]"

subsection \<open>Strings in a multipart body\<close>

text \<open>
  \<^verbatim>\<open>FormData.append(name, value)\<close> takes a string value as a scalar value string:
  a surrogate that is not half of a pair is replaced by U+FFFD, every other code unit is
  kept.
\<close>

fun toUSVString :: "jsstring \<Rightarrow> jsstring" where
  "toUSVString [] = []"
| "toUSVString [c] = (if isLeadingSurrogate c \<or> isTrailingSurrogate c then [0xFFFD] else [c])"
| "toUSVString (c # d # cs) =
     (if isLeadingSurrogate c \<and> isTrailingSurrogate d then c # d # toUSVString cs
      else toUSVString [c] @ toUSVString (d # cs))"

subsection \<open>Data model and component state\<close>

datatype status = Active | Inactive

datatype prescription = Required | NotRequired

fun statusString :: "status \<Rightarrow> jsstring" where
  "statusString Active = str ''active''"
| "statusString Inactive = str ''inactive''"

fun prescriptionString :: "prescription \<Rightarrow> jsstring" where
  "prescriptionString Required = str ''required''"
| "prescriptionString NotRequired = str ''not_required''"

text \<open>
  The interface \<^verbatim>\<open>InventoryItem\<close>. The optional properties \<^verbatim>\<open>images\<close>,
  \<^verbatim>\<open>image\<close> (the legacy field), \<^verbatim>\<open>brand\<close> and \<^verbatim>\<open>packSize\<close> may be absent.
\<close>

record InventoryItem =
  item_id :: jsstring
  item_name :: jsstring
  item_category :: jsstring
  item_price :: jsnumber
  item_stock :: jsnumber
  item_description :: jsstring
  item_status :: status
  item_prescription :: prescription
  item_images :: "jsstring list option"
  item_image :: maybe_string
  item_brand :: maybe_string
  item_packSize :: maybe_string

record formData =
  name :: jsstring
  description :: jsstring
  category :: jsstring
  price :: jsstring
  stock :: jsstring
  brand :: jsstring
  packSize :: jsstring
  status :: status
  prescription :: prescription
  images :: "jsstring list"

text \<open>
  The state hooks of \<^verbatim>\<open>InventoryPage\<close> that the handlers read and write; \<open>'f\<close> is the
  type of \<^verbatim>\<open>File\<close> objects. (The hook \<^verbatim>\<open>user\<close> belongs to the session check of the
  mount effect and is touched by no handler.)
\<close>

record 'f state =
  inventory :: "InventoryItem list"
  isModalOpen :: bool
  isEditMode :: bool
  selectedItem :: "InventoryItem option"
  formData :: formData
  imagePreview :: "jsstring list"
  imageFiles :: "'f list"

subsection \<open>Effects\<close>

text \<open>
  A handler returns the next state and the effects it had on the outside, in the order
  they happen: a notification (\<^verbatim>\<open>toast.error\<close>, \<^verbatim>\<open>toast.success\<close>), a navigation
  (\<^verbatim>\<open>router.push\<close>), a line on the console, the confirmation dialog, or a request sent
  through axios with its method, URL, headers and, for POST and PUT, the multipart body.
\<close>

datatype http_method = GET | POST | PUT | DELETE

datatype 'f formValue = Text jsstring | Blob 'f

type_synonym 'f postData = "(jsstring \<times> 'f formValue) list"

datatype 'f event =
    ToastError jsstring
  | ToastSuccess jsstring
  | RouterPush jsstring
  | ConsoleError jsstring
  | Confirm jsstring
  | Request http_method jsstring "(jsstring \<times> jsstring) list" "'f postData option"

fun isRequest :: "'f event \<Rightarrow> bool" where
  "isRequest (Request _ _ _ _) = True"
| "isRequest _ = False"

text \<open>
  How an awaited axios call ends: it resolves with the response's \<^verbatim>\<open>data\<close>, or it
  rejects with an error whose \<^verbatim>\<open>response\<close> may be missing (a network failure) and
  otherwise has a \<^verbatim>\<open>status\<close> and possibly a \<^verbatim>\<open>data.message\<close>.
\<close>

record errorResponse =
  resp_status :: nat
  resp_message :: maybe_string

datatype 'a outcome = Resolved 'a | Rejected "errorResponse option"

text \<open>\<^verbatim>\<open>error.response?.status === 401\<close>\<close>

definition status401 :: "errorResponse option \<Rightarrow> bool" where
  "status401 r = (case r of None \<Rightarrow> False | Some e \<Rightarrow> resp_status e = 401)"

definition status400 :: "errorResponse option \<Rightarrow> bool" where
  "status400 r = (case r of None \<Rightarrow> False | Some e \<Rightarrow> resp_status e = 400)"

text \<open>\<^verbatim>\<open>error.response?.data?.message || fallback\<close>\<close>

definition messageOr :: "errorResponse option \<Rightarrow> jsstring \<Rightarrow> jsstring" where
  "messageOr r fallback =
     (case r of
        None \<Rightarrow> fallback
      | Some e \<Rightarrow> if truthy_maybe (resp_message e) then toTemplate (resp_message e) else fallback)"

definition inventoryUrl :: jsstring where
  "inventoryUrl = str ''http://localhost:8000/api/admin/inventory''"

definition bearer :: "maybe_string \<Rightarrow> jsstring" where
  "bearer token = str ''Bearer '' @ toTemplate token"

subsection \<open>fetchInventory\<close>

text \<open>
  \<open>token\<close> is what \<^verbatim>\<open>sessionStorage.getItem('token')\<close> returns and \<open>res\<close> is how the
  GET request ends, if it is sent.
\<close>

definition fetchRequest :: "maybe_string \<Rightarrow> 'f event" where
  "fetchRequest token =
     Request GET inventoryUrl
       [(str ''Authorization'', bearer token), (str ''Content-Type'', str ''application/json'')]
       None"

definition fetchInventory ::
  "maybe_string \<Rightarrow> InventoryItem list outcome \<Rightarrow> 'f state \<Rightarrow> 'f state \<times> 'f event list" where
  "fetchInventory token res s =
     (if \<not> truthy_maybe token
      then (s, [ToastError (str ''Authentication token not found''), RouterPush (str ''/login'')])
      else
        (case res of
           Resolved data \<Rightarrow> (s\<lparr>inventory := data\<rparr>, [fetchRequest token])
         | Rejected response \<Rightarrow>
             (s, [fetchRequest token, ConsoleError (str ''Fetch error:''),
                  ConsoleError (str ''Error response:'')] @
                 (if status401 response
                  then [ToastError (str ''Authentication failed. Please login again.''),
                        RouterPush (str ''/login'')]
                  else [ToastError (str ''Failed to fetch inventory'')]))))"

subsection \<open>handleImageChange\<close>

text \<open>
  \<^verbatim>\<open>URL.createObjectURL\<close> registers the file in the document's blob store and returns
  a new URL: a function of the store \<open>'w\<close> and the file, returning the URL and the next
  store. \<open>createObjectURLs\<close> is \<^verbatim>\<open>fileArray.map(file => URL.createObjectURL(file))\<close>,
  which calls it on the files from left to right.
\<close>

fun createObjectURLs ::
  "('w \<Rightarrow> 'f \<Rightarrow> jsstring \<times> 'w) \<Rightarrow> 'w \<Rightarrow> 'f list \<Rightarrow> jsstring list \<times> 'w" where
  "createObjectURLs createObjectURL w [] = ([], w)"
| "createObjectURLs createObjectURL w (file # fileArray) =
     (let (u, w1) = createObjectURL w file;
          (us, w2) = createObjectURLs createObjectURL w1 fileArray
      in (u # us, w2))"

text \<open>\<open>files\<close> is \<^verbatim>\<open>e.target.files\<close>: \<^verbatim>\<open>null\<close> or a list of files.\<close>

definition handleImageChange ::
  "('w \<Rightarrow> 'f \<Rightarrow> jsstring \<times> 'w) \<Rightarrow> 'f list option \<Rightarrow> 'f state \<times> 'w \<Rightarrow> 'f state \<times> 'w" where
  "handleImageChange createObjectURL files sw =
     (case sw of (s, w) \<Rightarrow>
        (case files of
           None \<Rightarrow> (s, w)
         | Some fileArray \<Rightarrow>
             if length fileArray > 0
             then
               let (previewArray, w1) = createObjectURLs createObjectURL w fileArray
               in (s\<lparr>imageFiles := fileArray, imagePreview := previewArray\<rparr>, w1)
             else (s, w)))"

subsection \<open>resetForm, the Add New button, handleModalClose\<close>

definition resetForm :: "'f state \<Rightarrow> 'f state" where
  "resetForm s =
     s\<lparr>formData :=
         \<lparr>name = [], description = [], category = [], price = [], stock = [], brand = [],
          packSize = [], status = Active, prescription = NotRequired, images = []\<rparr>,
       imagePreview := [],
       imageFiles := [],
       isEditMode := False,
       selectedItem := None\<rparr>"

definition handleAddNew :: "'f state \<Rightarrow> 'f state" where
  "handleAddNew s = (resetForm s)\<lparr>isModalOpen := True\<rparr>"

definition handleModalClose :: "'f state \<Rightarrow> 'f state" where
  "handleModalClose s = resetForm (s\<lparr>isModalOpen := False\<rparr>)"

subsection \<open>handleEdit\<close>

text \<open>
  \<open>toString\<close> is \<^verbatim>\<open>Number.prototype.toString\<close>. \<open>existingImages\<close> is the local constant
  of that name: the item's \<^verbatim>\<open>images\<close> when present and not empty, else the legacy
  \<^verbatim>\<open>image\<close> alone when it is truthy, else nothing.
\<close>

definition existingImages :: "InventoryItem \<Rightarrow> jsstring list" where
  "existingImages item =
     (if (case item_images item of None \<Rightarrow> False | Some imgs \<Rightarrow> length imgs > 0)
      then (case item_images item of None \<Rightarrow> [] | Some imgs \<Rightarrow> imgs)
      else if truthy_maybe (item_image item) then [toTemplate (item_image item)]
      else [])"

definition orEmpty :: "maybe_string \<Rightarrow> jsstring" where
  "orEmpty v = (if truthy_maybe v then toTemplate v else [])"

definition handleEdit :: "(jsnumber \<Rightarrow> jsstring) \<Rightarrow> InventoryItem \<Rightarrow> 'f state \<Rightarrow> 'f state" where
  "handleEdit toString item s =
     s\<lparr>selectedItem := Some item,
       formData :=
         \<lparr>name = item_name item,
          description = item_description item,
          category = item_category item,
          price = toString (item_price item),
          stock = toString (item_stock item),
          brand = orEmpty (item_brand item),
          packSize = orEmpty (item_packSize item),
          status = item_status item,
          prescription = item_prescription item,
          images = existingImages item\<rparr>,
       imagePreview := map (\<lambda>img. getImageUrl (Str img)) (existingImages item),
       imageFiles := [],
       isEditMode := True,
       isModalOpen := True\<rparr>"

subsection \<open>handleSubmit\<close>

text \<open>
  The four checks at the head of \<^verbatim>\<open>handleSubmit\<close>, in the order of the source; each
  one that fails shows its message and returns. \<open>validate\<close> gives the first check that
  fails, \<open>None\<close> when the handler reaches the \<^verbatim>\<open>try\<close> block.
\<close>

datatype rejection = RequiredFields | ImageRequired | PriceNotPositive | StockNegative

fun rejectionMessage :: "rejection \<Rightarrow> jsstring" where
  "rejectionMessage RequiredFields =
     str ''Please fill in all required fields (Pack Size is optional).''"
| "rejectionMessage ImageRequired = str ''Image is required when adding a new item.''"
| "rejectionMessage PriceNotPositive = str ''Price must be greater than 0''"
| "rejectionMessage StockNegative = str ''Stock cannot be negative''"

definition validate :: "'f state \<Rightarrow> rejection option" where
  "validate s =
     (if \<not> truthy (trim (name (formData s))) \<or>
         \<not> truthy (trim (description (formData s))) \<or>
         \<not> truthy (category (formData s)) \<or>
         \<not> truthy (price (formData s)) \<or>
         \<not> truthy (stock (formData s)) \<or>
         \<not> truthy (trim (brand (formData s)))
      then Some RequiredFields
      else if \<not> isEditMode s \<and> length (imageFiles s) = 0 then Some ImageRequired
      else if js_le (Number (price (formData s))) (Finite 0) then Some PriceNotPositive
      else if js_lt (Number (stock (formData s))) (Finite 0) then Some StockNegative
      else None)"

text \<open>
  The multipart body: the nine scalar fields, then either one \<^verbatim>\<open>images\<close> part for
  each new file or, in edit mode with no new file and a non-empty image list, one
  \<^verbatim>\<open>images\<close> part holding \<^verbatim>\<open>JSON.stringify(formData.images)\<close>. \<open>appendText\<close> is
  \<^verbatim>\<open>postData.append(key, value)\<close> for a string value.
\<close>

definition appendText :: "string \<Rightarrow> jsstring \<Rightarrow> jsstring \<times> 'f formValue" where
  "appendText key v = (str key, Text (toUSVString v))"

definition scalarFields :: "formData \<Rightarrow> 'f postData" where
  "scalarFields fd =
     [appendText ''name'' (name fd),
      appendText ''description'' (description fd),
      appendText ''category'' (category fd),
      appendText ''price'' (price fd),
      appendText ''stock'' (stock fd),
      appendText ''brand'' (brand fd),
      appendText ''packSize'' (packSize fd),
      appendText ''status'' (statusString (status fd)),
      appendText ''prescription'' (prescriptionString (prescription fd))]"

definition postData :: "'f state \<Rightarrow> 'f postData" where
  "postData s =
     scalarFields (formData s) @
     (if length (imageFiles s) > 0 then map (\<lambda>file. (str ''images'', Blob file)) (imageFiles s)
      else if isEditMode s \<and> length (images (formData s)) > 0
      then [appendText ''images'' (stringify (images (formData s)))]
      else [])"

text \<open>
  The request of the \<^verbatim>\<open>try\<close> block: PUT to the selected item's URL in edit mode with
  a selected item, POST to the collection otherwise, and the message shown when it
  resolves.
\<close>

definition submitRequest :: "maybe_string \<Rightarrow> 'f state \<Rightarrow> 'f event" where
  "submitRequest token s =
     (case (if isEditMode s then selectedItem s else None) of
        Some item \<Rightarrow>
          Request PUT (inventoryUrl @ str ''/'' @ item_id item)
            [(str ''Authorization'', bearer token)] (Some (postData s))
      | None \<Rightarrow>
          Request POST inventoryUrl
            [(str ''Authorization'', bearer token)] (Some (postData s)))"

definition submitSuccess :: "'f state \<Rightarrow> jsstring" where
  "submitSuccess s =
     (case (if isEditMode s then selectedItem s else None) of
        Some item \<Rightarrow> str ''Item updated successfully''
      | None \<Rightarrow> str ''Item added successfully'')"

text \<open>
  \<open>sent\<close> is how the PUT or POST ends and \<open>res\<close> how the GET of the following
  \<^verbatim>\<open>fetchInventory()\<close> ends. That call is not awaited: its request leaves before
  \<^verbatim>\<open>resetForm()\<close> runs and its response is handled after; the two write different
  hooks, so the state is the same in either order. \<^verbatim>\<open>fetchInventory\<close> reads the token
  again; the session storage is taken not to change while the handler runs. The call
  \<^verbatim>\<open>e.preventDefault()\<close> touches neither the state nor the outside and is left out.
\<close>

definition handleSubmit ::
  "maybe_string \<Rightarrow> unit outcome \<Rightarrow> InventoryItem list outcome \<Rightarrow> 'f state \<Rightarrow>
   'f state \<times> 'f event list" where
  "handleSubmit token sent res s =
     (case validate s of
        Some r \<Rightarrow> (s, [ToastError (rejectionMessage r)])
      | None \<Rightarrow>
          if \<not> truthy_maybe token
          then (s, [ToastError (str ''Authentication token not found''),
                    RouterPush (str ''/login'')])
          else
            (case sent of
               Resolved _ \<Rightarrow>
                 (let (s1, evs) = fetchInventory token res (s\<lparr>isModalOpen := False\<rparr>)
                  in (resetForm s1,
                      [submitRequest token s, ToastSuccess (submitSuccess s)] @ evs))
             | Rejected response \<Rightarrow>
                 (s, [submitRequest token s, ConsoleError (str ''Submit error:'')] @
                     (if status401 response
                      then [ToastError (str ''Authentication failed. Please login again.''),
                            RouterPush (str ''/login'')]
                      else if status400 response
                      then [ToastError (messageOr response (str ''Invalid data provided''))]
                      else [ToastError (messageOr response (str ''Operation failed''))]))))"

subsection \<open>handleDelete\<close>

text \<open>
  \<open>confirmed\<close> is the answer of \<^verbatim>\<open>window.confirm\<close>, \<open>deleted\<close> how the DELETE ends
  (resolving with the truthiness of \<^verbatim>\<open>response.data\<close>), \<open>res\<close> how the GET of the
  following \<^verbatim>\<open>fetchInventory()\<close> ends.
\<close>

definition deleteRequest :: "maybe_string \<Rightarrow> jsstring \<Rightarrow> 'f event" where
  "deleteRequest token ident =
     Request DELETE (inventoryUrl @ str ''/'' @ ident)
       [(str ''Authorization'', bearer token), (str ''Content-Type'', str ''application/json'')]
       None"

definition handleDelete ::
  "bool \<Rightarrow> maybe_string \<Rightarrow> bool outcome \<Rightarrow> InventoryItem list outcome \<Rightarrow> jsstring \<Rightarrow>
   'f state \<Rightarrow> 'f state \<times> 'f event list" where
  "handleDelete confirmed token deleted res ident s =
     (let ask = Confirm (str ''Are you sure you want to delete this item?'')
      in if \<not> confirmed then (s, [ask])
         else if \<not> truthy_maybe token
         then (s, [ask, ToastError (str ''Authentication token not found''),
                   RouterPush (str ''/login'')])
         else
           (case deleted of
              Resolved data \<Rightarrow>
                if data
                then
                  (let (s1, evs) = fetchInventory token res s
                   in (s1, [ask, deleteRequest token ident,
                            ToastSuccess (str ''Item deleted successfully'')] @ evs))
                else (s, [ask, deleteRequest token ident])
            | Rejected response \<Rightarrow>
                (s, [ask, deleteRequest token ident, ConsoleError (str ''Delete error:''),
                     ConsoleError (str ''Error response:'')] @
                    (if status401 response
                     then [ToastError (str ''Authentication failed. Please login again.''),
                           RouterPush (str ''/login'')]
                     else [ToastError (messageOr response (str ''Failed to delete item''))]))))"

subsection \<open>What the form fields can hold\<close>

text \<open>
  The draft's \<^verbatim>\<open>price\<close> and \<^verbatim>\<open>stock\<close> are written in three places only: by the
  \<^verbatim>\<open>onChange\<close> of an \<^verbatim>\<open><input type="number">\<close> with the input's \<^verbatim>\<open>value\<close>, by
  \<^verbatim>\<open>handleEdit\<close> with \<^verbatim>\<open>item.price.toString()\<close> and \<^verbatim>\<open>item.stock.toString()\<close>, and
  by \<^verbatim>\<open>resetForm\<close> with the empty string. The value of a number input is the empty
  string or a valid floating-point number of the HTML standard: an optional minus sign,
  digits or a fraction (a dot and digits) or both, and an optional exponent (\<^verbatim>\<open>e\<close> or
  \<^verbatim>\<open>E\<close>, an optional sign, digits). The items come out of a JSON response, which holds
  no NaN, and \<^verbatim>\<open>toString\<close> of any other number is such a string too, or \<^verbatim>\<open>Infinity\<close>
  or \<^verbatim>\<open>-Infinity\<close>.
\<close>

definition validExponent :: "jsstring \<Rightarrow> bool" where
  "validExponent r =
     (case r of
        [] \<Rightarrow> True
      | c # t \<Rightarrow> (c = 0x65 \<or> c = 0x45) \<and> signedInteger t \<noteq> None)"

definition validUnsignedFloat :: "jsstring \<Rightarrow> bool" where
  "validUnsignedFloat u =
     (let ip = takeWhile isDecimalDigit u;
          r1 = dropWhile isDecimalDigit u
      in case r1 of
           [] \<Rightarrow> ip \<noteq> []
         | c # r \<Rightarrow>
             if c = 0x2E
             then takeWhile isDecimalDigit r \<noteq> [] \<and> validExponent (dropWhile isDecimalDigit r)
             else ip \<noteq> [] \<and> validExponent r1)"

definition validFloatingPointNumber :: "jsstring \<Rightarrow> bool" where
  "validFloatingPointNumber s =
     (case s of
        [] \<Rightarrow> False
      | c # r \<Rightarrow> if c = 0x2D then validUnsignedFloat r else validUnsignedFloat s)"

definition numberFieldValue :: "jsstring \<Rightarrow> bool" where
  "numberFieldValue s \<longleftrightarrow>
     s = [] \<or> validFloatingPointNumber s \<or> s = str ''Infinity'' \<or> s = str ''-Infinity''"

text \<open>
  The draft's \<^verbatim>\<open>category\<close> is written by the \<^verbatim>\<open>onChange\<close> of the select, whose
  options have the empty value and the values \<open>categoryCodes\<close>, by \<^verbatim>\<open>handleEdit\<close> with
  \<^verbatim>\<open>item.category\<close>, and by \<^verbatim>\<open>resetForm\<close> with the empty string. None of the option
  values starts with white space.
\<close>

definition categoryCodes :: "jsstring list" where
  "categoryCodes =
     map str
       [''adult_care'', ''diabetic_care'', ''hair_care'', ''ayurveda'', ''skin_care'',
        ''mother_and_baby_care'', ''health_and_wellness'', ''beauty_accessories'',
        ''cosmetics'', ''food_items'', ''health_monitoring_devices'', ''kids'',
        ''household_remedies'', ''pet_care'', ''beverages'', ''sexual_wellness'',
        ''instant_powdered_mixes'']"

definition noLeadingWhiteSpace :: "jsstring \<Rightarrow> bool" where
  "noLeadingWhiteSpace s = (case s of [] \<Rightarrow> True | c # _ \<Rightarrow> \<not> isWhiteSpace c)"

text \<open>A draft as the page can hold it.\<close>

definition pageDraft :: "formData \<Rightarrow> bool" where
  "pageDraft fd \<longleftrightarrow>
     noLeadingWhiteSpace (category fd) \<and> numberFieldValue (price fd) \<and>
     numberFieldValue (stock fd)"

subsection \<open>Readings of the specification\<close>

text \<open>The multipart bodies of the requests among some effects, in order.\<close>

fun requestBodies :: "'f event list \<Rightarrow> 'f postData list" where
  "requestBodies [] = []"
| "requestBodies (Request m u h (Some b) # evs) = b # requestBodies evs"
| "requestBodies (ev # evs) = requestBodies evs"

text \<open>
  The condition of the first check as \<^verbatim>\<open>handleSubmit\<close> writes it: \<^verbatim>\<open>name\<close>,
  \<^verbatim>\<open>description\<close> and \<^verbatim>\<open>brand\<close> are trimmed before the test, \<^verbatim>\<open>category\<close>,
  \<^verbatim>\<open>price\<close> and \<^verbatim>\<open>stock\<close> are tested as they are.
\<close>

definition requiredFieldsFilled :: "formData \<Rightarrow> bool" where
  "requiredFieldsFilled fd \<longleftrightarrow>
     trim (name fd) \<noteq> [] \<and> trim (description fd) \<noteq> [] \<and> category fd \<noteq> [] \<and>
     price fd \<noteq> [] \<and> stock fd \<noteq> [] \<and> trim (brand fd) \<noteq> []"

text \<open>
  The condition as the specification words it: one of the six required fields is empty
  after trimming.
\<close>

definition emptyAfterTrimming :: "formData \<Rightarrow> bool" where
  "emptyAfterTrimming fd \<longleftrightarrow>
     trim (name fd) = [] \<or> trim (description fd) = [] \<or> trim (category fd) = [] \<or>
     trim (price fd) = [] \<or> trim (stock fd) = [] \<or> trim (brand fd) = []"

text \<open>
  The validation has let the handler past the price check: no check up to it rejected.
  Likewise for the stock check, the last one.
\<close>

definition pastPriceCheck :: "'f state \<Rightarrow> bool" where
  "pastPriceCheck s \<longleftrightarrow> validate s = None \<or> validate s = Some StockNegative"

definition pastStockCheck :: "'f state \<Rightarrow> bool" where
  "pastStockCheck s \<longleftrightarrow> validate s = None"

subsection \<open>Sample data\<close>

text \<open>
  An item with only the legacy image, the draft that editing it opens (files are numbered),
  a session token, two error responses, and stand-ins for the two host functions the
  handlers take as arguments: \<^verbatim>\<open>toString\<close> on the two numbers of the item, and a blob store that counts
  the URLs it has handed out.
\<close>

definition sampleItem :: InventoryItem where
  "sampleItem =
     \<lparr>item_id = str ''i1'', item_name = str ''Soap'', item_category = str ''skin_care'',
      item_price = Finite 10, item_stock = Finite 5, item_description = str ''Mild soap'',
      item_status = Active, item_prescription = NotRequired, item_images = None,
      item_image = Str (str ''old.png''), item_brand = Str (str ''Acme''),
      item_packSize = Undefined\<rparr>"

definition sampleToString :: "jsnumber \<Rightarrow> jsstring" where
  "sampleToString n = (if n = Finite 10 then str ''10'' else str ''5'')"

definition sampleForm :: formData where
  "sampleForm =
     \<lparr>name = str ''Soap'', description = str ''Mild soap'', category = str ''skin_care'',
      price = str ''10'', stock = str ''5'', brand = str ''Acme'', packSize = [],
      status = Active, prescription = NotRequired, images = [str ''old.png'']\<rparr>"

definition sampleDraft :: "nat state" where
  "sampleDraft =
     \<lparr>inventory = [sampleItem], isModalOpen = True, isEditMode = True,
      selectedItem = Some sampleItem, formData = sampleForm,
      imagePreview = [str ''http://localhost:8000/uploads/products/old.png''],
      imageFiles = []\<rparr>"

definition sampleToken :: maybe_string where
  "sampleToken = Str (str ''t0'')"

definition serverError :: "errorResponse option" where
  "serverError = Some \<lparr>resp_status = 500, resp_message = Undefined\<rparr>"

definition unauthorized :: "errorResponse option" where
  "unauthorized = Some \<lparr>resp_status = 401, resp_message = Undefined\<rparr>"

definition sampleCreateObjectURL :: "nat \<Rightarrow> nat \<Rightarrow> jsstring \<times> nat" where
  "sampleCreateObjectURL w file = (str ''blob:'' @ [hexChar (w mod 16)], Suc w)"

text \<open>
  Drafts that differ from \<open>sampleDraft\<close> in one respect: a price of 0, a negative
  stock, a blank name together with a negative price, the same fields in create mode; and
  three with a string that no field of the page produces: a price or a stock that is no
  numeral, a category of one space.
\<close>

definition nonNumericPriceDraft :: "nat state" where
  "nonNumericPriceDraft = sampleDraft\<lparr>formData := sampleForm\<lparr>price := str ''abc''\<rparr>\<rparr>"

definition nonNumericStockDraft :: "nat state" where
  "nonNumericStockDraft = sampleDraft\<lparr>formData := sampleForm\<lparr>stock := str ''abc''\<rparr>\<rparr>"

definition zeroPriceDraft :: "nat state" where
  "zeroPriceDraft = sampleDraft\<lparr>formData := sampleForm\<lparr>price := str ''0''\<rparr>\<rparr>"

definition negativeStockDraft :: "nat state" where
  "negativeStockDraft = sampleDraft\<lparr>formData := sampleForm\<lparr>stock := str ''-1''\<rparr>\<rparr>"

definition blankCategoryDraft :: "nat state" where
  "blankCategoryDraft = sampleDraft\<lparr>formData := sampleForm\<lparr>category := str '' ''\<rparr>\<rparr>"

definition blankNameDraft :: "nat state" where
  "blankNameDraft =
     sampleDraft\<lparr>formData := sampleForm\<lparr>name := str ''  '', price := str ''-1''\<rparr>\<rparr>"

definition createDraft :: "nat state" where
  "createDraft = sampleDraft\<lparr>isEditMode := False, selectedItem := None\<rparr>"

text \<open>
  The item with an image list of two and with no image at all; a create-mode draft with
  one pending file; an edit-mode draft whose image list is empty.
\<close>

definition galleryItem :: InventoryItem where
  "galleryItem = sampleItem\<lparr>item_images := Some [str ''a.png'', str ''b.png'']\<rparr>"

definition bareItem :: InventoryItem where
  "bareItem = sampleItem\<lparr>item_images := Some [], item_image := Undefined\<rparr>"

definition pendingDraft :: "nat state" where
  "pendingDraft = createDraft\<lparr>imageFiles := [7], imagePreview := [str ''blob:0'']\<rparr>"

definition noImagesDraft :: "nat state" where
  "noImagesDraft = sampleDraft\<lparr>formData := sampleForm\<lparr>images := []\<rparr>, imagePreview := []\<rparr>"

section \<open>Properties\<close>

subsection \<open>Strings and image references\<close>

lemma split_acc_nonempty: "split_acc sep cur s \<noteq> []"
  by (induction s arbitrary: cur) auto

lemma last_split_acc:
  "last (split_acc sep cur s) =
     (if sep \<in> set s then rev (takeWhile (\<lambda>c. c \<noteq> sep) (rev s)) else cur @ s)"
proof (induction s arbitrary: cur)
  case Nil
  show ?case by simp
next
  case (Cons c cs)
  show ?case
  proof (cases "c = sep")
    case True
    then show ?thesis
      using Cons.IH [of "[]"] split_acc_nonempty [of sep "[]" cs]
      by (auto simp: takeWhile_append)
  next
    case False
    then show ?thesis
      using Cons.IH [of "cur @ [c]"] by (auto simp: takeWhile_append)
  qed
qed

lemma pop_split: "pop (split sep s) = Str (rev (takeWhile (\<lambda>c. c \<noteq> sep) (rev s)))"
proof -
  have "pop (split sep s) = Str (last (split_acc sep [] s))"
    using split_acc_nonempty [of sep "[]" s]
    by (cases "split_acc sep [] s" rule: rev_cases) (simp_all add: pop_def split_def)
  also have "last (split_acc sep [] s) = rev (takeWhile (\<lambda>c. c \<noteq> sep) (rev s))"
  proof (cases "sep \<in> set s")
    case True
    then show ?thesis by (simp add: last_split_acc)
  next
    case False
    then have tw: "takeWhile (\<lambda>c. c \<noteq> sep) (rev s) = rev s"
      by (auto simp: takeWhile_eq_all_conv)
    show ?thesis unfolding last_split_acc tw using False by simp
  qed
  finally show ?thesis .
qed

lemma getImageUrl_Str:
  "p \<noteq> [] \<Longrightarrow>
   getImageUrl (Str p) =
     str ''http://localhost:8000/uploads/products/'' @ afterLastSlash (replaceBackslashes p)"
  by (simp add: getImageUrl_def truthy_def pop_split afterLastSlash_def)

text \<open>
  Claim C5. \<^verbatim>\<open>getImageUrl\<close> is a function of its argument alone. On \<^verbatim>\<open>undefined\<close>,
  \<^verbatim>\<open>null\<close> and the empty string it returns \<^verbatim>\<open>/placeholder.png\<close>. On every non-empty
  string it returns \<^verbatim>\<open>http://localhost:8000/uploads/products/\<close> followed by what comes
  after the last slash once every backslash has been replaced by a slash. The reference
  \<^verbatim>\<open>a/b\c.png\<close> gives the URL that ends in \<^verbatim>\<open>c.png\<close>.
\<close>

theorem getImageUrl_resolves:
  "getImageUrl Undefined = str ''/placeholder.png'' \<and>
   getImageUrl Null = str ''/placeholder.png'' \<and>
   getImageUrl (Str []) = str ''/placeholder.png'' \<and>
   (\<forall>p. p \<noteq> [] \<longrightarrow>
      getImageUrl (Str p) =
        str ''http://localhost:8000/uploads/products/'' @ afterLastSlash (replaceBackslashes p)) \<and>
   getImageUrl (Str (str ''a/b'' @ [0x5C] @ str ''c.png'')) =
     str ''http://localhost:8000/uploads/products/'' @ str ''c.png''"
proof -
  have "getImageUrl (Str (str ''a/b'' @ [0x5C] @ str ''c.png'')) =
     str ''http://localhost:8000/uploads/products/'' @ str ''c.png''"
    by (simp add: getImageUrl_Str afterLastSlash_def replaceBackslashes_def str_def)
  then show ?thesis
    by (simp add: getImageUrl_Str) (simp add: getImageUrl_def truthy_def)
qed

theorem getImageUrl_resolves_witness:
  "str ''x/y.png'' \<noteq> [] \<and>
   getImageUrl (Str (str ''x/y.png'')) =
     str ''http://localhost:8000/uploads/products/'' @ str ''y.png''"
  using getImageUrl_resolves
  by (simp add: afterLastSlash_def replaceBackslashes_def str_def)

subsection \<open>What the form fields can hold\<close>

lemma digit_not_white: "isDecimalDigit c \<Longrightarrow> \<not> isWhiteSpace c"
  unfolding isDecimalDigit_def isWhiteSpace_def
  by (auto simp: word_le_nat_alt word_less_nat_alt)

lemma roundToDouble_not_NaN: "roundToDouble q \<noteq> NaN"
  by (simp add: roundToDouble_def)

lemma negate_NaN_iff: "negate n = NaN \<longleftrightarrow> n = NaN"
  by (cases n) simp_all

lemma punct_not_white:
  "\<not> isWhiteSpace 0x2B" "\<not> isWhiteSpace 0x2D" "\<not> isWhiteSpace 0x2E"
  "\<not> isWhiteSpace 0x45" "\<not> isWhiteSpace 0x65"
  by (simp_all add: isWhiteSpace_def)

lemma signedInteger_not_white:
  assumes "signedInteger t \<noteq> None" and "c \<in> set t"
  shows "\<not> isWhiteSpace c"
proof (cases t)
  case Nil
  with assms(2) show ?thesis by simp
next
  case (Cons d ds)
  show ?thesis
  proof (cases "d = 0x2B \<or> d = 0x2D")
    case True
    with assms(1) Cons have "list_all isDecimalDigit ds"
      by (auto simp: signedInteger_def split: if_splits)
    with assms(2) Cons True show ?thesis
      by (auto simp: list_all_iff punct_not_white dest: digit_not_white)
  next
    case False
    with assms(1) Cons have "list_all isDecimalDigit t"
      by (auto simp: signedInteger_def split: if_splits)
    with assms(2) show ?thesis
      by (auto simp: list_all_iff dest: digit_not_white)
  qed
qed

lemma validExponent_not_white:
  assumes "validExponent r" and "c \<in> set r"
  shows "\<not> isWhiteSpace c"
proof (cases r)
  case Nil
  with assms(2) show ?thesis by simp
next
  case (Cons d t)
  with assms(1) have d: "d = 0x65 \<or> d = 0x45" and si: "signedInteger t \<noteq> None"
    by (simp_all add: validExponent_def)
  from assms(2) Cons have "c = d \<or> c \<in> set t" by simp
  then show ?thesis
    using d signedInteger_not_white [OF si, of c] by (auto simp: punct_not_white)
qed

lemma takeWhile_digit_not_white:
  "c \<in> set (takeWhile isDecimalDigit u) \<Longrightarrow> \<not> isWhiteSpace c"
  by (auto dest: set_takeWhileD digit_not_white)

lemma validUnsignedFloat_not_white:
  assumes "validUnsignedFloat u" and "c \<in> set u"
  shows "\<not> isWhiteSpace c"
proof -
  let ?ip = "takeWhile isDecimalDigit u" and ?r1 = "dropWhile isDecimalDigit u"
  have "u = ?ip @ ?r1" by simp
  then have "c \<in> set ?ip \<or> c \<in> set ?r1"
    using assms(2) by (metis Un_iff set_append)
  then show ?thesis
  proof
    assume "c \<in> set ?ip"
    then show ?thesis by (rule takeWhile_digit_not_white)
  next
    assume c1: "c \<in> set ?r1"
    show ?thesis
    proof (cases ?r1)
      case Nil
      with c1 show ?thesis by simp
    next
      case (Cons d r)
      show ?thesis
      proof (cases "d = 0x2E")
        case True
        from assms(1) Cons True
        have ve: "validExponent (dropWhile isDecimalDigit r)"
          by (simp add: validUnsignedFloat_def)
        have "r = takeWhile isDecimalDigit r @ dropWhile isDecimalDigit r" by simp
        then have "set r = set (takeWhile isDecimalDigit r) \<union> set (dropWhile isDecimalDigit r)"
          by (metis set_append)
        with c1 Cons True
        have "c = 0x2E \<or> c \<in> set (takeWhile isDecimalDigit r) \<or>
              c \<in> set (dropWhile isDecimalDigit r)"
          by auto
        then show ?thesis
          using ve by (auto simp: punct_not_white dest: takeWhile_digit_not_white
              validExponent_not_white)
      next
        case False
        from assms(1) Cons False have "validExponent ?r1"
          by (simp add: validUnsignedFloat_def)
        with c1 show ?thesis by (rule validExponent_not_white [rotated])
      qed
    qed
  qed
qed

lemma validUnsignedFloat_nonempty: "validUnsignedFloat u \<Longrightarrow> u \<noteq> []"
  by (auto simp: validUnsignedFloat_def)

lemma validFloatingPointNumber_not_white:
  assumes "validFloatingPointNumber s" and "c \<in> set s"
  shows "\<not> isWhiteSpace c"
proof (cases s)
  case Nil
  with assms(2) show ?thesis by simp
next
  case (Cons d r)
  show ?thesis
  proof (cases "d = 0x2D")
    case True
    with assms(1) Cons have "validUnsignedFloat r"
      by (simp add: validFloatingPointNumber_def)
    with assms(2) Cons True show ?thesis
      by (auto simp: punct_not_white dest: validUnsignedFloat_not_white)
  next
    case False
    with assms(1) Cons have "validUnsignedFloat s"
      by (simp add: validFloatingPointNumber_def)
    then show ?thesis using assms(2) by (rule validUnsignedFloat_not_white)
  qed
qed

lemma dropWhile_no_white: "\<forall>c \<in> set xs. \<not> isWhiteSpace c \<Longrightarrow> dropWhile isWhiteSpace xs = xs"
  by (cases xs) auto

lemma trim_no_white:
  assumes "\<forall>c \<in> set s. \<not> isWhiteSpace c"
  shows "trim s = s"
proof -
  have "dropWhile isWhiteSpace s = s"
    using assms by (rule dropWhile_no_white)
  moreover have "dropWhile isWhiteSpace (rev s) = rev s"
    using assms by (intro dropWhile_no_white) simp
  ultimately show ?thesis by (simp add: trim_def)
qed

lemma validExponent_parses: "validExponent r \<Longrightarrow> exponentPart r \<noteq> None"
  by (cases r) (auto simp: validExponent_def exponentPart_def)

lemma strUnsignedDecimalLiteral_parses:
  assumes "takeWhile isDecimalDigit u \<noteq> [] \<or> fp \<noteq> []" and "exponentPart r2 \<noteq> None"
    and "(case dropWhile isDecimalDigit u of
            [] \<Rightarrow> ([], dropWhile isDecimalDigit u)
          | c # r \<Rightarrow>
              if c = 0x2E then (takeWhile isDecimalDigit r, dropWhile isDecimalDigit r)
              else ([], dropWhile isDecimalDigit u)) = (fp, r2)"
  shows "strUnsignedDecimalLiteral u \<noteq> NaN"
proof (cases "u = str ''Infinity''")
  case True
  then show ?thesis by (simp add: strUnsignedDecimalLiteral_def)
next
  case False
  from assms(2) obtain e where e: "exponentPart r2 = Some e" by auto
  show ?thesis
    using False assms(1) e
    unfolding strUnsignedDecimalLiteral_def Let_def assms(3)
    by (simp add: roundToDouble_not_NaN)
qed

lemma validUnsignedFloat_parses:
  assumes "validUnsignedFloat u"
  shows "strUnsignedDecimalLiteral u \<noteq> NaN"
proof (cases "dropWhile isDecimalDigit u")
  case Nil
  with assms have "takeWhile isDecimalDigit u \<noteq> []"
    by (simp add: validUnsignedFloat_def)
  then show ?thesis
    by (intro strUnsignedDecimalLiteral_parses [where fp = "[]" and ?r2.0 = "[]"])
      (simp_all add: exponentPart_def Nil)
next
  case (Cons d r)
  show ?thesis
  proof (cases "d = 0x2E")
    case True
    with assms Cons have "takeWhile isDecimalDigit r \<noteq> []"
      and "validExponent (dropWhile isDecimalDigit r)"
      by (simp_all add: validUnsignedFloat_def)
    then show ?thesis
      by (intro strUnsignedDecimalLiteral_parses
          [where fp = "takeWhile isDecimalDigit r" and ?r2.0 = "dropWhile isDecimalDigit r"])
        (simp_all add: validExponent_parses Cons True)
  next
    case False
    with assms Cons have "takeWhile isDecimalDigit u \<noteq> []"
      and "validExponent (dropWhile isDecimalDigit u)"
      by (simp_all add: validUnsignedFloat_def)
    then show ?thesis
      by (intro strUnsignedDecimalLiteral_parses
          [where fp = "[]" and ?r2.0 = "dropWhile isDecimalDigit u"])
        (simp_all add: validExponent_parses Cons False)
  qed
qed

lemma validFloatingPointNumber_parses:
  "validFloatingPointNumber s \<Longrightarrow> strDecimalLiteral s \<noteq> NaN"
proof (cases s)
  case Nil
  assume "validFloatingPointNumber s"
  with Nil show ?thesis by (simp add: validFloatingPointNumber_def)
next
  case (Cons c r)
  assume v: "validFloatingPointNumber s"
  show ?thesis
  proof (cases "c = 0x2D")
    case True
    with v Cons show ?thesis
      by (simp add: validFloatingPointNumber_def strDecimalLiteral_def negate_NaN_iff
          validUnsignedFloat_parses)
  next
    case False
    with v Cons have u: "validUnsignedFloat s"
      by (simp add: validFloatingPointNumber_def)
    have "c \<noteq> 0x2B"
    proof
      assume "c = 0x2B"
      with u Cons show False
        by (simp add: validUnsignedFloat_def isDecimalDigit_def)
    qed
    with False Cons u show ?thesis
      by (simp add: strDecimalLiteral_def validUnsignedFloat_parses)
  qed
qed

lemma nonDecimalIntegerLiteral_not_NaN: "nonDecimalIntegerLiteral t = Some n \<Longrightarrow> n \<noteq> NaN"
  unfolding nonDecimalIntegerLiteral_def Let_def
  by (auto simp: roundToDouble_not_NaN split: list.splits option.splits if_splits)

lemma Number_Infinity:
  "Number (str ''Infinity'') = PosInfinity" "Number (str ''-Infinity'') = NegInfinity"
  by (simp_all add: Number_def trim_def isWhiteSpace_def nonDecimalIntegerLiteral_def
      strDecimalLiteral_def strUnsignedDecimalLiteral_def str_def)

lemma numberFieldValue_parses: "numberFieldValue s \<Longrightarrow> Number s \<noteq> NaN"
proof -
  assume "numberFieldValue s"
  then consider "s = []" | "validFloatingPointNumber s" | "s = str ''Infinity''"
    | "s = str ''-Infinity''"
    by (auto simp: numberFieldValue_def)
  then show ?thesis
  proof cases
    case 1
    then show ?thesis by (simp add: Number_def trim_def)
  next
    case 2
    then have t: "trim s = s"
      by (auto intro: trim_no_white dest: validFloatingPointNumber_not_white)
    from 2 have ne: "s \<noteq> []" by (auto simp: validFloatingPointNumber_def)
    show ?thesis
      using 2 ne nonDecimalIntegerLiteral_not_NaN [of s]
      by (auto simp: Number_def t validFloatingPointNumber_parses split: option.splits)
  next
    case 3
    then show ?thesis by (simp add: Number_Infinity)
  next
    case 4
    then show ?thesis by (simp add: Number_Infinity)
  qed
qed

lemma noLeadingWhiteSpace_trim: "noLeadingWhiteSpace s \<Longrightarrow> trim s = [] \<Longrightarrow> s = []"
proof (rule ccontr)
  assume n: "noLeadingWhiteSpace s" and t: "trim s = []" and ne: "s \<noteq> []"
  then obtain c r where s: "s = c # r" by (cases s) auto
  with n have "\<not> isWhiteSpace c" by (simp add: noLeadingWhiteSpace_def)
  then have "dropWhile isWhiteSpace s = s" using s by simp
  with t have "dropWhile isWhiteSpace (rev s) = []" by (simp add: trim_def)
  then have "\<forall>x \<in> set (rev s). isWhiteSpace x" by (simp add: dropWhile_eq_Nil_conv)
  with s \<open>\<not> isWhiteSpace c\<close> show False by simp
qed

lemma numberFieldValue_noLeadingWhiteSpace: "numberFieldValue s \<Longrightarrow> noLeadingWhiteSpace s"
proof -
  assume "numberFieldValue s"
  then consider "s = []" | "validFloatingPointNumber s" | "s = str ''Infinity''"
    | "s = str ''-Infinity''"
    by (auto simp: numberFieldValue_def)
  then show ?thesis
  proof cases
    case 2
    then show ?thesis
      by (cases s) (auto simp: noLeadingWhiteSpace_def dest: validFloatingPointNumber_not_white)
  qed (simp_all add: noLeadingWhiteSpace_def str_def isWhiteSpace_def)
qed

lemma categoryCodes_noLeadingWhiteSpace:
  "c \<in> set ([] # categoryCodes) \<Longrightarrow> noLeadingWhiteSpace c"
  by (auto simp: categoryCodes_def noLeadingWhiteSpace_def str_def isWhiteSpace_def)

lemma pageDraft_resetForm: "pageDraft (formData (resetForm s))"
  by (simp add: pageDraft_def resetForm_def noLeadingWhiteSpace_def numberFieldValue_def)

lemma pageDraft_handleEdit:
  "noLeadingWhiteSpace (item_category item) \<Longrightarrow>
   numberFieldValue (toString (item_price item)) \<Longrightarrow>
   numberFieldValue (toString (item_stock item)) \<Longrightarrow>
   pageDraft (formData (handleEdit toString item s))"
  by (simp add: pageDraft_def handleEdit_def)

subsection \<open>Validation in handleSubmit\<close>

lemmas number_defs = str_def trim_def isWhiteSpace_def Number_def nonDecimalIntegerLiteral_def
  strDecimalLiteral_def strUnsignedDecimalLiteral_def isDecimalDigit_def exponentPart_def
  signedInteger_def digitsValue_def digitValue_def scale10_def roundToDouble_def isDigitOf_def

lemmas field_defs = numberFieldValue_def validFloatingPointNumber_def validUnsignedFloat_def
  validExponent_def signedInteger_def isDecimalDigit_def noLeadingWhiteSpace_def

lemma Number_10: "Number (str ''10'') = Finite 10"
  by (simp add: number_defs)

lemma Number_5: "Number (str ''5'') = Finite 5"
  by (simp add: number_defs)

lemma Number_abc: "Number (str ''abc'') = NaN"
  by (simp add: number_defs)

lemma Number_minus_1: "Number (str ''-1'') = Finite (- 1)"
  by (simp add: number_defs)

lemma Number_0: "Number (str ''0'') = Finite 0"
  by (simp add: number_defs)

lemma js_le_zero_iff: "n \<noteq> NaN \<Longrightarrow> js_le n (Finite 0) \<longleftrightarrow> \<not> js_gt n (Finite 0)"
  by (cases n) (auto simp: js_gt_def)

lemma js_lt_zero_iff: "n \<noteq> NaN \<Longrightarrow> js_lt n (Finite 0) \<longleftrightarrow> \<not> js_ge n (Finite 0)"
  by (cases n) (auto simp: js_ge_def)

lemma validate_RequiredFields:
  "validate s = Some RequiredFields \<longleftrightarrow> \<not> requiredFieldsFilled (formData s)"
  by (auto simp: validate_def requiredFieldsFilled_def truthy_def)

lemma validate_ImageRequired:
  "validate s = Some ImageRequired \<longleftrightarrow>
     requiredFieldsFilled (formData s) \<and> \<not> isEditMode s \<and> imageFiles s = []"
  by (auto simp: validate_def requiredFieldsFilled_def truthy_def)

lemma validate_PriceNotPositive:
  "validate s = Some PriceNotPositive \<longleftrightarrow>
     requiredFieldsFilled (formData s) \<and> (isEditMode s \<or> imageFiles s \<noteq> []) \<and>
     js_le (Number (price (formData s))) (Finite 0)"
  by (auto simp: validate_def requiredFieldsFilled_def truthy_def)

lemma validate_StockNegative:
  "validate s = Some StockNegative \<longleftrightarrow>
     requiredFieldsFilled (formData s) \<and> (isEditMode s \<or> imageFiles s \<noteq> []) \<and>
     \<not> js_le (Number (price (formData s))) (Finite 0) \<and>
     js_lt (Number (stock (formData s))) (Finite 0)"
  by (auto simp: validate_def requiredFieldsFilled_def truthy_def)

lemma validate_None:
  "validate s = None \<longleftrightarrow>
     requiredFieldsFilled (formData s) \<and> (isEditMode s \<or> imageFiles s \<noteq> []) \<and>
     \<not> js_le (Number (price (formData s))) (Finite 0) \<and>
     \<not> js_lt (Number (stock (formData s))) (Finite 0)"
  by (auto simp: validate_def requiredFieldsFilled_def truthy_def)

lemma handleSubmit_rejected:
  "validate s = Some r \<Longrightarrow> handleSubmit token sent res s = (s, [ToastError (rejectionMessage r)])"
  by (simp add: handleSubmit_def)

lemma handleSubmit_request:
  "validate s = None \<Longrightarrow> truthy_maybe token \<Longrightarrow>
   \<exists>s' evs. handleSubmit token sent res s = (s', submitRequest token s # evs)"
  by (cases sent) (auto simp: handleSubmit_def split: prod.splits)

lemma isRequest_submitRequest: "isRequest (submitRequest token s)"
  by (simp add: submitRequest_def split: option.splits)

lemma handleSubmit_sends:
  assumes "validate s = None" and "truthy_maybe token"
  shows "filter isRequest (snd (handleSubmit token sent res s)) \<noteq> [] \<and>
         handleSubmit token sent res s \<noteq> (s', [ToastError m])"
proof -
  obtain s1 evs where h: "handleSubmit token sent res s = (s1, submitRequest token s # evs)"
    using handleSubmit_request [OF assms] by blast
  show ?thesis
    using isRequest_submitRequest [of token s] by (auto simp: h)
qed

lemma empty_required_field:
  assumes "emptyAfterTrimming fd" and "pageDraft fd"
  shows "\<not> requiredFieldsFilled fd"
proof -
  have "category fd = []" if "trim (category fd) = []"
    using assms(2) that by (auto simp: pageDraft_def dest: noLeadingWhiteSpace_trim)
  moreover have "price fd = []" if "trim (price fd) = []"
    using assms(2) that
    by (auto simp: pageDraft_def dest: numberFieldValue_noLeadingWhiteSpace noLeadingWhiteSpace_trim)
  moreover have "stock fd = []" if "trim (stock fd) = []"
    using assms(2) that
    by (auto simp: pageDraft_def dest: numberFieldValue_noLeadingWhiteSpace noLeadingWhiteSpace_trim)
  ultimately show ?thesis
    using assms(1) by (auto simp: emptyAfterTrimming_def requiredFieldsFilled_def)
qed

lemmas filled_defs = requiredFieldsFilled_def sampleDraft_def sampleForm_def str_def trim_def
  isWhiteSpace_def

lemma truthy_sampleToken: "truthy_maybe sampleToken"
  by (simp add: sampleToken_def truthy_def str_def)

lemma sampleDraft_facts:
  "requiredFieldsFilled (formData sampleDraft)" "isEditMode sampleDraft"
  "imageFiles sampleDraft = []"
  "Number (price (formData sampleDraft)) = Finite 10"
  "Number (stock (formData sampleDraft)) = Finite 5"
  by (simp_all add: filled_defs Number_10 [unfolded str_def, simplified]
      Number_5 [unfolded str_def, simplified])

lemma sampleDraft_fields:
  "numberFieldValue (price (formData sampleDraft))"
  "numberFieldValue (stock (formData sampleDraft))"
  "category (formData sampleDraft) \<in> set categoryCodes"
  by (simp_all add: sampleDraft_def sampleForm_def field_defs categoryCodes_def str_def)

lemma sampleDraft_opens:
  "handleEdit sampleToString sampleItem (resetForm sampleDraft) = sampleDraft"
  by (simp add: handleEdit_def resetForm_def sampleDraft_def sampleForm_def sampleItem_def
      sampleToString_def existingImages_def orEmpty_def truthy_def getImageUrl_Str
      afterLastSlash_def replaceBackslashes_def str_def)

lemma zeroPriceDraft_facts:
  "requiredFieldsFilled (formData zeroPriceDraft)" "isEditMode zeroPriceDraft"
  "Number (price (formData zeroPriceDraft)) = Finite 0"
  by (simp_all add: zeroPriceDraft_def filled_defs Number_0 [unfolded str_def, simplified])

lemma zeroPriceDraft_fields: "numberFieldValue (price (formData zeroPriceDraft))"
  by (simp add: zeroPriceDraft_def sampleDraft_def sampleForm_def field_defs str_def)

text \<open>
  Claim C1. Take a draft that passes the required-field check and the create-mode image
  check. Whenever its price is a string the page can hold (the value of the number input,
  \<^verbatim>\<open>toString\<close> of an item's number or the empty string), and more generally whenever
  its price parses to a number, the handler gets past the price check exactly when the
  parsed price is greater than 0, and when it is not greater than 0 the handler shows
  \<^verbatim>\<open>Price must be greater than 0\<close>, leaves the state as it is and sends no request.
  Every parsed price that is at most 0 is rejected so.
\<close>

theorem price_check:
  assumes "requiredFieldsFilled (formData s)" and "isEditMode s \<or> imageFiles s \<noteq> []"
  shows
    "(numberFieldValue (price (formData s)) \<longrightarrow>
        (pastPriceCheck s \<longleftrightarrow> js_gt (Number (price (formData s))) (Finite 0)) \<and>
        (\<not> js_gt (Number (price (formData s))) (Finite 0) \<longrightarrow>
           handleSubmit token sent res s =
             (s, [ToastError (str ''Price must be greater than 0'')]) \<and>
           filter isRequest (snd (handleSubmit token sent res s)) = [])) \<and>
     (Number (price (formData s)) \<noteq> NaN \<longrightarrow>
        (pastPriceCheck s \<longleftrightarrow> js_gt (Number (price (formData s))) (Finite 0))) \<and>
     (Number (price (formData s)) \<noteq> NaN \<and> \<not> js_gt (Number (price (formData s))) (Finite 0) \<longrightarrow>
        handleSubmit token sent res s = (s, [ToastError (str ''Price must be greater than 0'')]) \<and>
        filter isRequest (snd (handleSubmit token sent res s)) = []) \<and>
     (js_le (Number (price (formData s))) (Finite 0) \<longrightarrow>
        handleSubmit token sent res s = (s, [ToastError (str ''Price must be greater than 0'')]) \<and>
        filter isRequest (snd (handleSubmit token sent res s)) = [])"
proof -
  let ?n = "Number (price (formData s))"
  have past: "pastPriceCheck s \<longleftrightarrow> \<not> js_le ?n (Finite 0)"
    using assms unfolding pastPriceCheck_def validate_None validate_StockNegative by auto
  have rej: "handleSubmit token sent res s = (s, [ToastError (str ''Price must be greater than 0'')])"
    if "js_le ?n (Finite 0)"
    using that assms handleSubmit_rejected [of s PriceNotPositive token sent res]
    by (simp add: validate_PriceNotPositive)
  have num: "?n \<noteq> NaN" if "numberFieldValue (price (formData s))"
    using that by (rule numberFieldValue_parses)
  show ?thesis
    using past rej num js_le_zero_iff [of ?n] by auto
qed

theorem price_check_witness:
  "requiredFieldsFilled (formData zeroPriceDraft) \<and>
   (isEditMode zeroPriceDraft \<or> imageFiles zeroPriceDraft \<noteq> []) \<and>
   numberFieldValue (price (formData zeroPriceDraft)) \<and>
   Number (price (formData zeroPriceDraft)) \<noteq> NaN \<and>
   \<not> js_gt (Number (price (formData zeroPriceDraft))) (Finite 0) \<and>
   js_le (Number (price (formData zeroPriceDraft))) (Finite 0) \<and>
   \<not> pastPriceCheck zeroPriceDraft \<and>
   handleSubmit sampleToken (Resolved ()) (Resolved []) zeroPriceDraft =
     (zeroPriceDraft, [ToastError (str ''Price must be greater than 0'')]) \<and>
   requiredFieldsFilled (formData sampleDraft) \<and> isEditMode sampleDraft \<and>
   numberFieldValue (price (formData sampleDraft)) \<and>
   js_gt (Number (price (formData sampleDraft))) (Finite 0) \<and>
   pastPriceCheck sampleDraft"
  using price_check [of zeroPriceDraft sampleToken "Resolved ()" "Resolved []"]
    price_check [of sampleDraft sampleToken "Resolved ()" "Resolved []"]
  by (simp add: zeroPriceDraft_facts zeroPriceDraft_fields sampleDraft_facts sampleDraft_fields
      js_gt_def)

lemma negativeStockDraft_facts:
  "requiredFieldsFilled (formData negativeStockDraft)" "isEditMode negativeStockDraft"
  "Number (price (formData negativeStockDraft)) = Finite 10"
  "Number (stock (formData negativeStockDraft)) = Finite (- 1)"
  by (simp_all add: negativeStockDraft_def filled_defs Number_10 [unfolded str_def, simplified]
      Number_minus_1 [unfolded str_def, simplified])

lemma negativeStockDraft_fields: "numberFieldValue (stock (formData negativeStockDraft))"
  by (simp add: negativeStockDraft_def sampleDraft_def sampleForm_def field_defs str_def)

text \<open>
  Claim C2. Take a draft that passes the required-field check, the create-mode image
  check and the price check. Whenever its stock is a string the page can hold, and more
  generally whenever its stock parses to a number, the handler gets past the stock check
  exactly when the parsed stock is at least 0, and when it is not at least 0 the handler
  shows \<^verbatim>\<open>Stock cannot be negative\<close>, leaves the state as it is and sends no request.
  Every parsed stock below 0 is rejected so.
\<close>

theorem stock_check:
  assumes "requiredFieldsFilled (formData s)" and "isEditMode s \<or> imageFiles s \<noteq> []"
    and "\<not> js_le (Number (price (formData s))) (Finite 0)"
  shows
    "(numberFieldValue (stock (formData s)) \<longrightarrow>
        (pastStockCheck s \<longleftrightarrow> js_ge (Number (stock (formData s))) (Finite 0)) \<and>
        (\<not> js_ge (Number (stock (formData s))) (Finite 0) \<longrightarrow>
           handleSubmit token sent res s = (s, [ToastError (str ''Stock cannot be negative'')]) \<and>
           filter isRequest (snd (handleSubmit token sent res s)) = [])) \<and>
     (Number (stock (formData s)) \<noteq> NaN \<longrightarrow>
        (pastStockCheck s \<longleftrightarrow> js_ge (Number (stock (formData s))) (Finite 0))) \<and>
     (Number (stock (formData s)) \<noteq> NaN \<and> \<not> js_ge (Number (stock (formData s))) (Finite 0) \<longrightarrow>
        handleSubmit token sent res s = (s, [ToastError (str ''Stock cannot be negative'')]) \<and>
        filter isRequest (snd (handleSubmit token sent res s)) = []) \<and>
     (js_lt (Number (stock (formData s))) (Finite 0) \<longrightarrow>
        handleSubmit token sent res s = (s, [ToastError (str ''Stock cannot be negative'')]) \<and>
        filter isRequest (snd (handleSubmit token sent res s)) = [])"
proof -
  let ?m = "Number (stock (formData s))"
  have past: "pastStockCheck s \<longleftrightarrow> \<not> js_lt ?m (Finite 0)"
    using assms unfolding pastStockCheck_def validate_None by auto
  have rej: "handleSubmit token sent res s = (s, [ToastError (str ''Stock cannot be negative'')])"
    if "js_lt ?m (Finite 0)"
    using that assms handleSubmit_rejected [of s StockNegative token sent res]
    by (simp add: validate_StockNegative)
  have num: "?m \<noteq> NaN" if "numberFieldValue (stock (formData s))"
    using that by (rule numberFieldValue_parses)
  show ?thesis
    using past rej num js_lt_zero_iff [of ?m] by auto
qed

theorem stock_check_witness:
  "requiredFieldsFilled (formData negativeStockDraft) \<and>
   (isEditMode negativeStockDraft \<or> imageFiles negativeStockDraft \<noteq> []) \<and>
   \<not> js_le (Number (price (formData negativeStockDraft))) (Finite 0) \<and>
   numberFieldValue (stock (formData negativeStockDraft)) \<and>
   Number (stock (formData negativeStockDraft)) \<noteq> NaN \<and>
   \<not> js_ge (Number (stock (formData negativeStockDraft))) (Finite 0) \<and>
   js_lt (Number (stock (formData negativeStockDraft))) (Finite 0) \<and>
   \<not> pastStockCheck negativeStockDraft \<and>
   handleSubmit sampleToken (Resolved ()) (Resolved []) negativeStockDraft =
     (negativeStockDraft, [ToastError (str ''Stock cannot be negative'')]) \<and>
   requiredFieldsFilled (formData sampleDraft) \<and> isEditMode sampleDraft \<and>
   \<not> js_le (Number (price (formData sampleDraft))) (Finite 0) \<and>
   numberFieldValue (stock (formData sampleDraft)) \<and>
   js_ge (Number (stock (formData sampleDraft))) (Finite 0) \<and>
   pastStockCheck sampleDraft"
  using stock_check [of negativeStockDraft sampleToken "Resolved ()" "Resolved []"]
    stock_check [of sampleDraft sampleToken "Resolved ()" "Resolved []"]
  by (simp add: negativeStockDraft_facts negativeStockDraft_fields sampleDraft_facts
      sampleDraft_fields js_ge_def)

lemma blankNameDraft_facts:
  "trim (name (formData blankNameDraft)) = []"
  "js_le (Number (price (formData blankNameDraft))) (Finite 0)"
  "emptyAfterTrimming (formData blankNameDraft)"
  "pageDraft (formData blankNameDraft)"
  by (simp_all add: blankNameDraft_def filled_defs Number_minus_1 [unfolded str_def, simplified]
      emptyAfterTrimming_def pageDraft_def field_defs)

text \<open>
  Claim C3. When one of \<^verbatim>\<open>name\<close>, \<^verbatim>\<open>description\<close>, \<^verbatim>\<open>category\<close>, \<^verbatim>\<open>price\<close>,
  \<^verbatim>\<open>stock\<close> and \<^verbatim>\<open>brand\<close> is empty after trimming, in a draft as the page can hold
  it, the handler shows the required-fields message, leaves the state as it is and sends
  no request, whatever else is wrong with the draft: the check comes first. The same holds
  for every draft at all in which \<^verbatim>\<open>name\<close>, \<^verbatim>\<open>description\<close> or \<^verbatim>\<open>brand\<close> is empty
  after trimming or \<^verbatim>\<open>category\<close>, \<^verbatim>\<open>price\<close> or \<^verbatim>\<open>stock\<close> is empty. The pack
  size plays no part in the validation.
\<close>

theorem required_fields_first:
  "(emptyAfterTrimming (formData s) \<and> pageDraft (formData s) \<longrightarrow>
      validate s = Some RequiredFields \<and>
      handleSubmit token sent res s =
        (s, [ToastError (str ''Please fill in all required fields (Pack Size is optional).'')]) \<and>
      filter isRequest (snd (handleSubmit token sent res s)) = []) \<and>
   (trim (name (formData s)) = [] \<or> trim (description (formData s)) = [] \<or>
    category (formData s) = [] \<or> price (formData s) = [] \<or> stock (formData s) = [] \<or>
    trim (brand (formData s)) = [] \<longrightarrow>
      validate s = Some RequiredFields \<and>
      handleSubmit token sent res s =
        (s, [ToastError (str ''Please fill in all required fields (Pack Size is optional).'')]) \<and>
      filter isRequest (snd (handleSubmit token sent res s)) = []) \<and>
   validate (s\<lparr>formData := (formData s)\<lparr>packSize := p\<rparr>\<rparr>) = validate s"
proof -
  have rej: "handleSubmit token sent res s =
        (s, [ToastError (str ''Please fill in all required fields (Pack Size is optional).'')])"
    if "validate s = Some RequiredFields"
    using handleSubmit_rejected [OF that, of token sent res] by simp
  have page: "validate s = Some RequiredFields"
    if "emptyAfterTrimming (formData s)" "pageDraft (formData s)"
    using empty_required_field [OF that] by (simp add: validate_RequiredFields)
  have code: "validate s = Some RequiredFields"
    if "trim (name (formData s)) = [] \<or> trim (description (formData s)) = [] \<or>
        category (formData s) = [] \<or> price (formData s) = [] \<or> stock (formData s) = [] \<or>
        trim (brand (formData s)) = []"
    using that by (auto simp: validate_RequiredFields requiredFieldsFilled_def)
  have pack: "validate (s\<lparr>formData := (formData s)\<lparr>packSize := p\<rparr>\<rparr>) = validate s"
    by (simp add: validate_def)
  show ?thesis
    using rej page code pack by auto
qed

theorem required_fields_first_witness:
  "emptyAfterTrimming (formData blankNameDraft) \<and> pageDraft (formData blankNameDraft) \<and>
   trim (name (formData blankNameDraft)) = [] \<and>
   js_le (Number (price (formData blankNameDraft))) (Finite 0) \<and>
   handleSubmit sampleToken (Resolved ()) (Resolved []) blankNameDraft =
     (blankNameDraft,
      [ToastError (str ''Please fill in all required fields (Pack Size is optional).'')])"
  using required_fields_first [of blankNameDraft sampleToken "Resolved ()" "Resolved []" "[]"]
  by (simp add: blankNameDraft_facts)

lemma createDraft_facts:
  "requiredFieldsFilled (formData createDraft)" "\<not> isEditMode createDraft"
  "imageFiles createDraft = []"
  by (simp_all add: createDraft_def filled_defs)

lemma not_emptyAfterTrimming_filled: "\<not> emptyAfterTrimming fd \<Longrightarrow> requiredFieldsFilled fd"
  by (auto simp: emptyAfterTrimming_def requiredFieldsFilled_def trim_def)

text \<open>
  Claim C4. In create mode, a draft that passes the required-field check and has no
  pending image file is rejected with \<^verbatim>\<open>Image is required when adding a new item.\<close>,
  the state is left as it is and no request is sent. In edit mode the image check never
  rejects. (The required-field check passes in particular when all six required fields
  are non-empty after trimming, \<open>not_emptyAfterTrimming_filled\<close>.)
\<close>

theorem image_required_in_create_mode:
  "(requiredFieldsFilled (formData s) \<and> \<not> isEditMode s \<and> imageFiles s = [] \<longrightarrow>
      validate s = Some ImageRequired \<and>
      handleSubmit token sent res s =
        (s, [ToastError (str ''Image is required when adding a new item.'')]) \<and>
      filter isRequest (snd (handleSubmit token sent res s)) = []) \<and>
   (isEditMode s \<longrightarrow> validate s \<noteq> Some ImageRequired)"
proof -
  have "handleSubmit token sent res s =
        (s, [ToastError (str ''Image is required when adding a new item.'')])"
    if "validate s = Some ImageRequired"
    using handleSubmit_rejected [OF that, of token sent res] by simp
  then show ?thesis
    by (auto simp: validate_ImageRequired)
qed

theorem image_required_in_create_mode_witness:
  "requiredFieldsFilled (formData createDraft) \<and> \<not> isEditMode createDraft \<and>
   imageFiles createDraft = [] \<and>
   handleSubmit sampleToken (Resolved ()) (Resolved []) createDraft =
     (createDraft, [ToastError (str ''Image is required when adding a new item.'')]) \<and>
   isEditMode sampleDraft \<and> imageFiles sampleDraft = [] \<and>
   validate sampleDraft \<noteq> Some ImageRequired"
  using image_required_in_create_mode [of createDraft sampleToken "Resolved ()" "Resolved []"]
    image_required_in_create_mode [of sampleDraft sampleToken "Resolved ()" "Resolved []"]
  by (simp add: createDraft_facts sampleDraft_facts)

subsection \<open>Network failures\<close>

lemma fetchRequest_sampleToken:
  "fetchRequest sampleToken =
     Request GET (str ''http://localhost:8000/api/admin/inventory'')
       [(str ''Authorization'', str ''Bearer t0''),
        (str ''Content-Type'', str ''application/json'')] None"
  by (simp add: fetchRequest_def inventoryUrl_def bearer_def sampleToken_def str_def)

text \<open>
  Claim C7. When the GET request of \<^verbatim>\<open>fetchInventory\<close> fails with anything but a 401
  response, the whole state, and so the inventory list, is left as it was, and the
  notification \<^verbatim>\<open>Failed to fetch inventory\<close> is shown. The list changes only when the
  request resolves, and then it becomes the response body as it is.
\<close>

theorem fetchInventory_failure_keeps_list:
  "(truthy_maybe token \<and> \<not> status401 response \<longrightarrow>
      fetchInventory token (Rejected response) s =
        (s, [fetchRequest token, ConsoleError (str ''Fetch error:''),
             ConsoleError (str ''Error response:''),
             ToastError (str ''Failed to fetch inventory'')])) \<and>
   (inventory (fst (fetchInventory token res s)) \<noteq> inventory s \<longrightarrow>
      (\<exists>data. res = Resolved data \<and> truthy_maybe token)) \<and>
   (truthy_maybe token \<longrightarrow>
      fetchInventory token (Resolved data) s = (s\<lparr>inventory := data\<rparr>, [fetchRequest token]) \<and>
      inventory (fst (fetchInventory token (Resolved data) s)) = data)"
  by (cases res) (auto simp: fetchInventory_def)

theorem fetchInventory_failure_keeps_list_witness:
  "truthy_maybe sampleToken \<and> \<not> status401 serverError \<and>
   fetchInventory sampleToken (Rejected serverError) sampleDraft =
     (sampleDraft,
      [Request GET (str ''http://localhost:8000/api/admin/inventory'')
         [(str ''Authorization'', str ''Bearer t0''),
          (str ''Content-Type'', str ''application/json'')] None,
       ConsoleError (str ''Fetch error:''), ConsoleError (str ''Error response:''),
       ToastError (str ''Failed to fetch inventory'')]) \<and>
   inventory (fst (fetchInventory sampleToken (Resolved []) sampleDraft)) \<noteq> inventory sampleDraft \<and>
   inventory (fst (fetchInventory sampleToken (Resolved []) sampleDraft)) = []"
  using fetchInventory_failure_keeps_list [of sampleToken serverError sampleDraft "Resolved []" "[]"]
  by (simp add: truthy_sampleToken status401_def serverError_def fetchRequest_sampleToken)
     (simp add: sampleDraft_def)

lemma isRequest_fetchRequest: "isRequest (fetchRequest token)"
  by (simp add: fetchRequest_def)

lemma isRequest_deleteRequest: "isRequest (deleteRequest token ident)"
  by (simp add: deleteRequest_def)

lemma fetchInventory_401:
  "truthy_maybe token \<Longrightarrow> status401 response \<Longrightarrow>
   fetchInventory token (Rejected response) s =
     (s, [fetchRequest token, ConsoleError (str ''Fetch error:''),
          ConsoleError (str ''Error response:''),
          ToastError (str ''Authentication failed. Please login again.''),
          RouterPush (str ''/login'')])"
  by (simp add: fetchInventory_def)

text \<open>
  Claim C8. When the request of \<^verbatim>\<open>fetchInventory\<close>, of \<^verbatim>\<open>handleSubmit\<close> (PUT or
  POST) or of \<^verbatim>\<open>handleDelete\<close> is answered with 401, the handler shows
  \<^verbatim>\<open>Authentication failed. Please login again.\<close> and navigates to \<^verbatim>\<open>/login\<close>; the
  state is left as it was and the request was sent once, with no second attempt. The same
  holds for the GET that follows a successful submit or delete.
\<close>

theorem unauthorized_redirects_to_login:
  assumes "truthy_maybe token" and "status401 response"
  shows
    "fetchInventory token (Rejected response) s =
       (s, [fetchRequest token, ConsoleError (str ''Fetch error:''),
            ConsoleError (str ''Error response:''),
            ToastError (str ''Authentication failed. Please login again.''),
            RouterPush (str ''/login'')]) \<and>
     (validate s = None \<longrightarrow>
        handleSubmit token (Rejected response) res s =
          (s, [submitRequest token s, ConsoleError (str ''Submit error:''),
               ToastError (str ''Authentication failed. Please login again.''),
               RouterPush (str ''/login'')])) \<and>
     handleDelete True token (Rejected response) res ident s =
       (s, [Confirm (str ''Are you sure you want to delete this item?''),
            deleteRequest token ident, ConsoleError (str ''Delete error:''),
            ConsoleError (str ''Error response:''),
            ToastError (str ''Authentication failed. Please login again.''),
            RouterPush (str ''/login'')]) \<and>
     (validate s = None \<longrightarrow>
        snd (handleSubmit token (Resolved ()) (Rejected response) s) =
          [submitRequest token s, ToastSuccess (submitSuccess s), fetchRequest token,
           ConsoleError (str ''Fetch error:''), ConsoleError (str ''Error response:''),
           ToastError (str ''Authentication failed. Please login again.''),
           RouterPush (str ''/login'')]) \<and>
     snd (handleDelete True token (Resolved True) (Rejected response) ident s) =
       [Confirm (str ''Are you sure you want to delete this item?''),
        deleteRequest token ident, ToastSuccess (str ''Item deleted successfully''),
        fetchRequest token,
        ConsoleError (str ''Fetch error:''), ConsoleError (str ''Error response:''),
        ToastError (str ''Authentication failed. Please login again.''),
        RouterPush (str ''/login'')] \<and>
     length (filter isRequest (snd (fetchInventory token (Rejected response) s))) = 1 \<and>
     (validate s = None \<longrightarrow>
        length (filter isRequest (snd (handleSubmit token (Rejected response) res s))) = 1) \<and>
     length (filter isRequest (snd (handleDelete True token (Rejected response) res ident s))) = 1"
proof -
  have f: "fetchInventory token (Rejected response) s' =
       (s', [fetchRequest token, ConsoleError (str ''Fetch error:''),
            ConsoleError (str ''Error response:''),
            ToastError (str ''Authentication failed. Please login again.''),
            RouterPush (str ''/login'')])" for s' :: "'a state"
    using assms by (rule fetchInventory_401)
  have sub: "handleSubmit token (Rejected response) res s =
          (s, [submitRequest token s, ConsoleError (str ''Submit error:''),
               ToastError (str ''Authentication failed. Please login again.''),
               RouterPush (str ''/login'')])" if "validate s = None"
    using assms that by (simp add: handleSubmit_def)
  have del: "handleDelete True token (Rejected response) res ident s =
       (s, [Confirm (str ''Are you sure you want to delete this item?''),
            deleteRequest token ident, ConsoleError (str ''Delete error:''),
            ConsoleError (str ''Error response:''),
            ToastError (str ''Authentication failed. Please login again.''),
            RouterPush (str ''/login'')])"
    using assms by (simp add: handleDelete_def)
  have sub2: "snd (handleSubmit token (Resolved ()) (Rejected response) s) =
          [submitRequest token s, ToastSuccess (submitSuccess s), fetchRequest token,
           ConsoleError (str ''Fetch error:''), ConsoleError (str ''Error response:''),
           ToastError (str ''Authentication failed. Please login again.''),
           RouterPush (str ''/login'')]" if "validate s = None"
    using assms that by (simp add: handleSubmit_def f)
  have del2: "snd (handleDelete True token (Resolved True) (Rejected response) ident s) =
       [Confirm (str ''Are you sure you want to delete this item?''),
        deleteRequest token ident, ToastSuccess (str ''Item deleted successfully''),
        fetchRequest token,
        ConsoleError (str ''Fetch error:''), ConsoleError (str ''Error response:''),
        ToastError (str ''Authentication failed. Please login again.''),
        RouterPush (str ''/login'')]"
    using assms by (simp add: handleDelete_def f)
  show ?thesis
    using f [of s] sub del sub2 del2
    by (simp add: isRequest_fetchRequest isRequest_deleteRequest isRequest_submitRequest)
qed

theorem unauthorized_redirects_to_login_witness:
  "truthy_maybe sampleToken \<and> status401 unauthorized \<and> validate sampleDraft = None \<and>
   handleSubmit sampleToken (Rejected unauthorized) (Resolved []) sampleDraft =
     (sampleDraft,
      [submitRequest sampleToken sampleDraft, ConsoleError (str ''Submit error:''),
       ToastError (str ''Authentication failed. Please login again.''),
       RouterPush (str ''/login'')]) \<and>
   fetchInventory sampleToken (Rejected unauthorized) sampleDraft =
     (sampleDraft,
      [fetchRequest sampleToken, ConsoleError (str ''Fetch error:''),
       ConsoleError (str ''Error response:''),
       ToastError (str ''Authentication failed. Please login again.''),
       RouterPush (str ''/login'')]) \<and>
   handleDelete True sampleToken (Rejected unauthorized) (Resolved []) (str ''i1'') sampleDraft =
     (sampleDraft,
      [Confirm (str ''Are you sure you want to delete this item?''),
       deleteRequest sampleToken (str ''i1''), ConsoleError (str ''Delete error:''),
       ConsoleError (str ''Error response:''),
       ToastError (str ''Authentication failed. Please login again.''),
       RouterPush (str ''/login'')]) \<and>
   length (filter isRequest
     (snd (handleSubmit sampleToken (Rejected unauthorized) (Resolved []) sampleDraft))) = 1"
proof -
  have u: "status401 unauthorized"
    by (simp add: status401_def unauthorized_def)
  have v: "validate sampleDraft = None"
    by (simp add: validate_None sampleDraft_facts)
  show ?thesis
    using unauthorized_redirects_to_login
      [OF truthy_sampleToken u, of sampleDraft "Resolved []" "str ''i1''"]
    by (simp add: truthy_sampleToken u v isRequest_submitRequest)
qed

subsection \<open>Editing an item\<close>

text \<open>
  Claim C6. After \<^verbatim>\<open>handleEdit(item)\<close> the draft's image list is the item's
  \<^verbatim>\<open>images\<close> as it is when that list is not empty; it is the one-element list of the
  legacy \<^verbatim>\<open>image\<close> when \<^verbatim>\<open>images\<close> is absent or empty and the legacy field is a
  non-empty string; and it is empty when both are absent or empty.
\<close>

theorem handleEdit_images:
  "(\<forall>imgs. item_images item = Some imgs \<and> imgs \<noteq> [] \<longrightarrow>
      images (formData (handleEdit toString item s)) = imgs) \<and>
   (\<forall>v. (item_images item = None \<or> item_images item = Some []) \<and>
        item_image item = Str v \<and> v \<noteq> [] \<longrightarrow>
      images (formData (handleEdit toString item s)) = [v]) \<and>
   ((item_images item = None \<or> item_images item = Some []) \<and>
    (item_image item = Undefined \<or> item_image item = Null \<or> item_image item = Str []) \<longrightarrow>
      images (formData (handleEdit toString item s)) = [])"
  by (auto simp: handleEdit_def existingImages_def truthy_def)

theorem handleEdit_images_witness:
  "item_images galleryItem = Some [str ''a.png'', str ''b.png''] \<and>
   images (formData (handleEdit sampleToString galleryItem sampleDraft)) =
     [str ''a.png'', str ''b.png''] \<and>
   item_images sampleItem = None \<and> item_image sampleItem = Str (str ''old.png'') \<and>
   images (formData (handleEdit sampleToString sampleItem sampleDraft)) = [str ''old.png''] \<and>
   item_images bareItem = Some [] \<and> item_image bareItem = Undefined \<and>
   images (formData (handleEdit sampleToString bareItem sampleDraft)) = []"
  using handleEdit_images [of galleryItem sampleToString sampleDraft]
    handleEdit_images [of sampleItem sampleToString sampleDraft]
    handleEdit_images [of bareItem sampleToString sampleDraft]
  by (simp add: galleryItem_def bareItem_def sampleItem_def str_def)

subsection \<open>Selecting image files\<close>

lemma length_createObjectURLs:
  "length (fst (createObjectURLs c w fs)) = length fs"
  by (induction fs arbitrary: w) (simp_all add: case_prod_beta)

lemma nth_createObjectURLs:
  "i < length fs \<Longrightarrow>
   fst (createObjectURLs c w fs) ! i =
     fst (c (snd (createObjectURLs c w (take i fs))) (fs ! i))"
proof (induction fs arbitrary: w i)
  case Nil
  then show ?case by simp
next
  case (Cons f fs)
  show ?case
  proof (cases i)
    case 0
    then show ?thesis by (simp add: case_prod_beta)
  next
    case (Suc j)
    with Cons.prems have "j < length fs" by simp
    from Cons.IH [OF this, of "snd (c w f)"] Suc show ?thesis
      by (simp add: case_prod_beta)
  qed
qed

text \<open>
  Claim C9, amended. For every selection of at least one file, \<^verbatim>\<open>handleImageChange\<close>
  replaces the pending files by exactly the selected ones and the previews by one new
  object URL for each selected file, in the order of the files (the \<open>i\<close>-th preview is
  the URL created for the \<open>i\<close>-th file, after the ones before it); nothing else in the
  state changes. For an empty selection, and for none, the state is left as it was.
\<close>

theorem handleImageChange_replaces:
  "(fileArray \<noteq> [] \<longrightarrow>
      imageFiles (fst (handleImageChange c (Some fileArray) (s, w))) = fileArray \<and>
      imagePreview (fst (handleImageChange c (Some fileArray) (s, w))) =
        fst (createObjectURLs c w fileArray) \<and>
      length (imagePreview (fst (handleImageChange c (Some fileArray) (s, w)))) =
        length fileArray \<and>
      (\<forall>i < length fileArray.
         imagePreview (fst (handleImageChange c (Some fileArray) (s, w))) ! i =
           fst (c (snd (createObjectURLs c w (take i fileArray))) (fileArray ! i))) \<and>
      fst (handleImageChange c (Some fileArray) (s, w)) =
        s\<lparr>imageFiles := fileArray, imagePreview := fst (createObjectURLs c w fileArray)\<rparr>) \<and>
   handleImageChange c (Some []) (s, w) = (s, w) \<and>
   handleImageChange c None (s, w) = (s, w)"
  by (simp add: handleImageChange_def case_prod_beta length_createObjectURLs
      nth_createObjectURLs)

theorem handleImageChange_replaces_witness:
  "[3, 4] \<noteq> ([] :: nat list) \<and>
   imageFiles (fst (handleImageChange sampleCreateObjectURL (Some [3, 4]) (pendingDraft, 0))) =
     [3, 4] \<and>
   imagePreview (fst (handleImageChange sampleCreateObjectURL (Some [3, 4]) (pendingDraft, 0))) =
     [str ''blob:0'', str ''blob:1'']"
  using handleImageChange_replaces [of "[3, 4]" sampleCreateObjectURL pendingDraft 0]
  by (simp add: sampleCreateObjectURL_def hexChar_def str_def)

text \<open>
  The claim as first stated fails on the empty selection: with one file pending, the
  pending files are still that file, not the empty selection, and its preview stays.
\<close>

theorem handleImageChange_replaces_counterexample:
  "imageFiles (fst (handleImageChange sampleCreateObjectURL (Some []) (pendingDraft, 0))) = [7] \<and>
   imageFiles (fst (handleImageChange sampleCreateObjectURL (Some []) (pendingDraft, 0))) \<noteq> [] \<and>
   imagePreview (fst (handleImageChange sampleCreateObjectURL (Some []) (pendingDraft, 0))) =
     [str ''blob:0''] \<and>
   length (imagePreview (fst (handleImageChange sampleCreateObjectURL (Some []) (pendingDraft, 0))))
     \<noteq> length ([] :: nat list)"
  by (simp add: handleImageChange_def pendingDraft_def)


subsection \<open>The multipart body\<close>

lemma requestBodies_fetchInventory: "requestBodies (snd (fetchInventory token res s)) = []"
  by (cases res) (simp_all add: fetchInventory_def fetchRequest_def)

lemma requestBodies_handleSubmit:
  "validate s = None \<Longrightarrow> truthy_maybe token \<Longrightarrow>
   requestBodies (snd (handleSubmit token sent res s)) = [postData s]"
proof (cases sent)
  case (Resolved u)
  assume "validate s = None" "truthy_maybe token"
  then show ?thesis
    using Resolved requestBodies_fetchInventory [of token res "s\<lparr>isModalOpen := False\<rparr>"]
    by (simp add: handleSubmit_def case_prod_beta submitRequest_def split: option.splits)
next
  case (Rejected response)
  assume "validate s = None" "truthy_maybe token"
  then show ?thesis
    using Rejected
    by (simp add: handleSubmit_def submitRequest_def split: option.splits)
qed

text \<open>
  Claim C10. In edit mode, when the draft passes validation, no new file is selected and
  the draft's image list is empty, the multipart body is the nine scalar fields and
  nothing else: it has no \<^verbatim>\<open>images\<close> entry. With a session token that body is the
  only one sent, and with a selected item it goes out first, in a PUT to that item's URL.
\<close>

theorem edit_without_images_sends_scalars_only:
  assumes "isEditMode s" and "validate s = None" and "imageFiles s = []"
    and "images (formData s) = []"
  shows
    "postData s = scalarFields (formData s) \<and>
     map fst (postData s) =
       [str ''name'', str ''description'', str ''category'', str ''price'', str ''stock'',
        str ''brand'', str ''packSize'', str ''status'', str ''prescription''] \<and>
     str ''images'' \<notin> fst ` set (postData s) \<and>
     (truthy_maybe token \<longrightarrow>
        requestBodies (snd (handleSubmit token sent res s)) = [scalarFields (formData s)]) \<and>
     (\<forall>item. truthy_maybe token \<and> selectedItem s = Some item \<longrightarrow>
        hd (snd (handleSubmit token sent res s)) =
          Request PUT (inventoryUrl @ str ''/'' @ item_id item)
            [(str ''Authorization'', bearer token)] (Some (scalarFields (formData s))))"
proof -
  have pd: "postData s = scalarFields (formData s)"
    using assms by (simp add: postData_def)
  have keys: "map fst (scalarFields fd :: 'a postData) =
       [str ''name'', str ''description'', str ''category'', str ''price'', str ''stock'',
        str ''brand'', str ''packSize'', str ''status'', str ''prescription'']" for fd
    by (simp add: scalarFields_def appendText_def)
  have "str ''images'' \<notin> set (map fst (scalarFields (formData s) :: 'a postData))"
    unfolding keys by (simp add: str_def)
  then have noimg: "str ''images'' \<notin> fst ` set (postData s)"
    by (simp add: pd)
  have bodies: "requestBodies (snd (handleSubmit token sent res s)) = [scalarFields (formData s)]"
    if "truthy_maybe token"
    using requestBodies_handleSubmit [OF assms(2) that, of sent res] by (simp add: pd)
  have first: "hd (snd (handleSubmit token sent res s)) =
          Request PUT (inventoryUrl @ str ''/'' @ item_id item)
            [(str ''Authorization'', bearer token)] (Some (scalarFields (formData s)))"
    if tok: "truthy_maybe token" and sel: "selectedItem s = Some item" for item
  proof -
    obtain s1 evs where h: "handleSubmit token sent res s = (s1, submitRequest token s # evs)"
      using handleSubmit_request [OF assms(2) tok] by blast
    show ?thesis
      using assms(1) sel by (simp add: h submitRequest_def pd)
  qed
  show ?thesis
    using pd keys [of "formData s"] noimg bodies first by simp
qed

lemma noImagesDraft_facts:
  "isEditMode noImagesDraft" "validate noImagesDraft = None" "imageFiles noImagesDraft = []"
  "images (formData noImagesDraft) = []" "selectedItem noImagesDraft = Some sampleItem"
  by (simp_all add: validate_None noImagesDraft_def filled_defs
      Number_10 [unfolded str_def, simplified] Number_5 [unfolded str_def, simplified])

theorem edit_without_images_sends_scalars_only_witness:
  "isEditMode noImagesDraft \<and> validate noImagesDraft = None \<and> imageFiles noImagesDraft = [] \<and>
   images (formData noImagesDraft) = [] \<and> truthy_maybe sampleToken \<and>
   selectedItem noImagesDraft = Some sampleItem \<and>
   requestBodies (snd (handleSubmit sampleToken (Resolved ()) (Resolved []) noImagesDraft)) =
     [[(str ''name'', Text (str ''Soap'')),
       (str ''description'', Text (str ''Mild soap'')),
       (str ''category'', Text (str ''skin_care'')),
       (str ''price'', Text (str ''10'')),
       (str ''stock'', Text (str ''5'')),
       (str ''brand'', Text (str ''Acme'')),
       (str ''packSize'', Text []),
       (str ''status'', Text (str ''active'')),
       (str ''prescription'', Text (str ''not_required''))]] \<and>
   hd (snd (handleSubmit sampleToken (Resolved ()) (Resolved []) noImagesDraft)) =
     Request PUT (str ''http://localhost:8000/api/admin/inventory/i1'')
       [(str ''Authorization'', str ''Bearer t0'')]
       (Some (scalarFields (formData noImagesDraft)))"
  using edit_without_images_sends_scalars_only
    [OF noImagesDraft_facts(1-4), of sampleToken "Resolved ()" "Resolved []"]
  by (simp add: noImagesDraft_facts truthy_sampleToken)
     (simp add: scalarFields_def appendText_def isLeadingSurrogate_def isTrailingSurrogate_def
       noImagesDraft_def sampleDraft_def sampleForm_def sampleItem_def
       inventoryUrl_def bearer_def sampleToken_def str_def)

subsection \<open>Strings that no field holds\<close>

text \<open>
  The condition on the draft in C1, C2 and C3 is needed. A price or a stock that is not a
  numeral parses to NaN, which is neither at most 0 nor greater than 0, and a category of
  one space is not trimmed; on such drafts, which no field of the page produces, every
  check passes and the request is sent.
\<close>

lemma nonNumericPriceDraft_facts:
  "requiredFieldsFilled (formData nonNumericPriceDraft)" "isEditMode nonNumericPriceDraft"
  "Number (price (formData nonNumericPriceDraft)) = NaN"
  "Number (stock (formData nonNumericPriceDraft)) = Finite 5"
  by (simp_all add: nonNumericPriceDraft_def filled_defs Number_abc [unfolded str_def, simplified]
      Number_5 [unfolded str_def, simplified])

lemma nonNumericStockDraft_facts:
  "requiredFieldsFilled (formData nonNumericStockDraft)" "isEditMode nonNumericStockDraft"
  "Number (price (formData nonNumericStockDraft)) = Finite 10"
  "Number (stock (formData nonNumericStockDraft)) = NaN"
  by (simp_all add: nonNumericStockDraft_def filled_defs Number_10 [unfolded str_def, simplified]
      Number_abc [unfolded str_def, simplified])

lemma blankCategoryDraft_facts:
  "requiredFieldsFilled (formData blankCategoryDraft)" "isEditMode blankCategoryDraft"
  "Number (price (formData blankCategoryDraft)) = Finite 10"
  "Number (stock (formData blankCategoryDraft)) = Finite 5"
  "trim (category (formData blankCategoryDraft)) = []"
  by (simp_all add: blankCategoryDraft_def filled_defs Number_10 [unfolded str_def, simplified]
      Number_5 [unfolded str_def, simplified])

lemma nonNumeric_price_passes:
  "\<not> numberFieldValue (price (formData nonNumericPriceDraft)) \<and>
   \<not> js_gt (Number (price (formData nonNumericPriceDraft))) (Finite 0) \<and>
   validate nonNumericPriceDraft = None \<and>
   filter isRequest (snd (handleSubmit sampleToken (Resolved ()) (Resolved []) nonNumericPriceDraft))
     \<noteq> []"
proof -
  have v: "validate nonNumericPriceDraft = None"
    by (simp add: validate_None nonNumericPriceDraft_facts)
  have "\<not> numberFieldValue (price (formData nonNumericPriceDraft))"
    using numberFieldValue_parses [of "price (formData nonNumericPriceDraft)"]
    by (auto simp: nonNumericPriceDraft_facts)
  then show ?thesis
    using handleSubmit_sends [OF v truthy_sampleToken]
    by (simp add: nonNumericPriceDraft_facts js_gt_def v)
qed

lemma nonNumeric_stock_passes:
  "\<not> numberFieldValue (stock (formData nonNumericStockDraft)) \<and>
   \<not> js_ge (Number (stock (formData nonNumericStockDraft))) (Finite 0) \<and>
   validate nonNumericStockDraft = None \<and>
   filter isRequest (snd (handleSubmit sampleToken (Resolved ()) (Resolved []) nonNumericStockDraft))
     \<noteq> []"
proof -
  have v: "validate nonNumericStockDraft = None"
    by (simp add: validate_None nonNumericStockDraft_facts)
  have "\<not> numberFieldValue (stock (formData nonNumericStockDraft))"
    using numberFieldValue_parses [of "stock (formData nonNumericStockDraft)"]
    by (auto simp: nonNumericStockDraft_facts)
  then show ?thesis
    using handleSubmit_sends [OF v truthy_sampleToken]
    by (simp add: nonNumericStockDraft_facts js_ge_def v)
qed

lemma blank_category_passes:
  "\<not> noLeadingWhiteSpace (category (formData blankCategoryDraft)) \<and>
   emptyAfterTrimming (formData blankCategoryDraft) \<and>
   validate blankCategoryDraft = None \<and>
   filter isRequest (snd (handleSubmit sampleToken (Resolved ()) (Resolved []) blankCategoryDraft))
     \<noteq> []"
proof -
  have v: "validate blankCategoryDraft = None"
    by (simp add: validate_None blankCategoryDraft_facts)
  have "\<not> noLeadingWhiteSpace (category (formData blankCategoryDraft))"
    by (simp add: blankCategoryDraft_def sampleDraft_def noLeadingWhiteSpace_def str_def
        isWhiteSpace_def)
  then show ?thesis
    using handleSubmit_sends [OF v truthy_sampleToken]
    by (simp add: emptyAfterTrimming_def blankCategoryDraft_facts v)
qed

end
